theory Spec2Isabelle
  imports Main "HOL-Library.Sublist"
begin

section \<open>JavaScript values\<close>

text \<open>
  The tool handler of \<^verbatim>\<open>src/index.ts\<close> receives its arguments as decoded JSON and
  hands JSON values back. A value is one of JavaScript's primitives, an array or an
  object; an object is its list of own properties in insertion order. Numbers are
  modelled as integers: the program never computes with a number, it only asks for
  its \<^verbatim>\<open>typeof\<close> and its truthiness, where a fraction behaves as a non-zero
  integer does.
\<close>

datatype jsval =
    JUndefined
  | JNull
  | JBool bool
  | JNum int
  | JStr string
  | JArr "jsval list"
  | JObj "(string \<times> jsval) list"

text \<open>The \<^verbatim>\<open>typeof\<close> operator.\<close>

fun typeof :: "jsval \<Rightarrow> string" where
  "typeof JUndefined = ''undefined''"
| "typeof JNull = ''object''"
| "typeof (JBool b) = ''boolean''"
| "typeof (JNum n) = ''number''"
| "typeof (JStr s) = ''string''"
| "typeof (JArr xs) = ''object''"
| "typeof (JObj kvs) = ''object''"

text \<open>Truthiness (\<^verbatim>\<open>ToBoolean\<close>), as used by \<^verbatim>\<open>!x\<close> and \<^verbatim>\<open>if (x)\<close>.\<close>

fun truthy :: "jsval \<Rightarrow> bool" where
  "truthy JUndefined = False"
| "truthy JNull = False"
| "truthy (JBool b) = b"
| "truthy (JNum n) = (n \<noteq> 0)"
| "truthy (JStr s) = (s \<noteq> [])"
| "truthy (JArr xs) = True"
| "truthy (JObj kvs) = True"

text \<open>Decimal notation of a number, as a template literal prints it.\<close>

fun show_nat :: "nat \<Rightarrow> string" where
  "show_nat n =
     (if n < 10 then [''0123456789'' ! n]
      else show_nat (n div 10) @ [''0123456789'' ! (n mod 10)])"

declare show_nat.simps [simp del]

definition show_int :: "int \<Rightarrow> string" where
  "show_int i = (if i < 0 then ''-'' @ show_nat (nat (- i)) else show_nat (nat i))"

text \<open>\<^verbatim>\<open>Array.prototype.join\<close> on strings.\<close>

fun join :: "string \<Rightarrow> string list \<Rightarrow> string" where
  "join sep [] = []"
| "join sep [x] = x"
| "join sep (x # y # ys) = x @ sep @ join sep (y # ys)"

text \<open>
  String conversion (\<^verbatim>\<open>ToString\<close>), which a template literal \<^verbatim>\<open>${x}\<close> applies:
  an array joins its elements with a comma, printing \<^verbatim>\<open>null\<close> and
  \<^verbatim>\<open>undefined\<close> elements as nothing.
\<close>

fun to_string :: "jsval \<Rightarrow> string" where
  "to_string JUndefined = ''undefined''"
| "to_string JNull = ''null''"
| "to_string (JBool b) = (if b then ''true'' else ''false'')"
| "to_string (JNum n) = show_int n"
| "to_string (JStr s) = s"
| "to_string (JArr xs) =
     join '','' (map (\<lambda>x. if x = JNull \<or> x = JUndefined then [] else to_string x) xs)"
| "to_string (JObj kvs) = ''[object Object]''"

text \<open>
  Reading a property, \<^verbatim>\<open>o[k]\<close>: an own property of an object, an index or the
  length of an array, \<^verbatim>\<open>undefined\<close> otherwise. Members inherited from a prototype
  and the own properties of a string primitive are left out: the program reads only
  the names \<^verbatim>\<open>board_id\<close>, \<^verbatim>\<open>name\<close>, \<^verbatim>\<open>description\<close>, \<^verbatim>\<open>card_id\<close>,
  \<^verbatim>\<open>title\<close>, \<^verbatim>\<open>column\<close>, \<^verbatim>\<open>body\<close>, \<^verbatim>\<open>tag\<close>, \<^verbatim>\<open>board\<close> and \<^verbatim>\<open>id\<close>,
  none of which is such a member. For a name such as \<^verbatim>\<open>constructor\<close> the source
  would read the inherited member, so the theorems about validation are stated for
  the schemas that the handler declares (\<open>declared_schema\<close>), whose fields are among
  the names above. The program reads a property of \<^verbatim>\<open>null\<close> at one place only
  (\<open>listCards\<close>), where the model raises the TypeError itself.
\<close>

fun get_prop :: "jsval \<Rightarrow> string \<Rightarrow> jsval" where
  "get_prop (JObj kvs) k = (case map_of kvs k of Some v \<Rightarrow> v | None \<Rightarrow> JUndefined)"
| "get_prop (JArr xs) k =
     (if k = ''length'' then JNum (int (length xs))
      else case find (\<lambda>i. show_nat i = k) [0..<length xs] of
             Some i \<Rightarrow> xs ! i
           | None \<Rightarrow> JUndefined)"
| "get_prop v k = JUndefined"

text \<open>
  Writing a property, \<^verbatim>\<open>o[k] = v\<close>: an existing property keeps its place, a new one
  goes last.
\<close>

fun set_prop :: "(string \<times> jsval) list \<Rightarrow> string \<Rightarrow> jsval \<Rightarrow> (string \<times> jsval) list" where
  "set_prop [] k v = [(k, v)]"
| "set_prop ((k', v') # kvs) k v =
     (if k' = k then (k, v) # kvs else (k', v') # set_prop kvs k v)"

text \<open>
  Strict equality \<^verbatim>\<open>a === b\<close> where \<open>a\<close> was decoded from a response and \<open>b\<close> came
  with the call: primitives are compared by value; an array or object is equal only
  to itself, and the two sides never share one.
\<close>

fun strict_equals :: "jsval \<Rightarrow> jsval \<Rightarrow> bool" where
  "strict_equals (JArr xs) b = False"
| "strict_equals (JObj kvs) b = False"
| "strict_equals a b = (a = b)"

text \<open>Every error the program throws is an \<^verbatim>\<open>Error\<close> with a message.\<close>

datatype error = Error (message: string)

section \<open>Argument validation\<close>

text \<open>\<^verbatim>\<open>String.prototype.endsWith\<close>.\<close>

definition endsWith :: "string \<Rightarrow> string \<Rightarrow> bool" where
  "endsWith s t = (length t \<le> length s \<and> drop (length s - length t) s = t)"

text \<open>
  The three accumulators of \<open>validateToolArgs\<close> (lines 57 to 59), and one pass of
  its loop body (lines 62 to 76) over a schema entry \<open>(field, expectedType)\<close>.
\<close>

record vstate =
  validated :: "(string \<times> jsval) list"
  missing :: "string list"
  wrongType :: "string list"

definition validate_field :: "jsval \<Rightarrow> vstate \<Rightarrow> string \<times> string \<Rightarrow> vstate" where
  "validate_field args st entry =
     (let field = fst entry;
          expectedType = snd entry;
          isOptional = endsWith expectedType ''?'';
          baseType = (if isOptional then butlast expectedType else expectedType);
          val = get_prop args field
      in if val = JUndefined \<or> val = JNull then
           (if \<not> isOptional then st\<lparr>missing := missing st @ [field]\<rparr> else st)
         else if typeof val \<noteq> baseType then
           st\<lparr>wrongType := wrongType st @
                [field @ '' (expected '' @ baseType @ '', got '' @ typeof val @ '')'']\<rparr>
         else st\<lparr>validated := set_prop (validated st) field val\<rparr>)"

text \<open>The loop over \<^verbatim>\<open>Object.entries(schema)\<close>, in the schema's order.\<close>

fun validate_loop :: "jsval \<Rightarrow> (string \<times> string) list \<Rightarrow> vstate \<Rightarrow> vstate" where
  "validate_loop args [] st = st"
| "validate_loop args (entry # entries) st =
     validate_loop args entries (validate_field args st entry)"

definition validateToolArgs ::
    "jsval \<Rightarrow> (string \<times> string) list \<Rightarrow> string \<Rightarrow> error + jsval" where
  \<open>validateToolArgs args schema toolName =
     (if \<not> truthy args \<or> typeof args \<noteq> ''object'' then
        Inl (Error (''Tool '' @ [CHR 0x27] @ toolName @ [CHR 0x27] @ '' requires arguments object''))
      else
        let st = validate_loop args schema \<lparr>validated = [], missing = [], wrongType = []\<rparr>
        in if missing st \<noteq> [] \<or> wrongType st \<noteq> [] then
             Inl (Error (''Tool '' @ [CHR 0x27] @ toolName @ [CHR 0x27] @ '' validation failed:''
               @ (if missing st \<noteq> [] then '' Missing: '' @ join '', '' (missing st) @ ''.''
                  else [])
               @ (if wrongType st \<noteq> [] then '' Wrong type: '' @ join '', '' (wrongType st) @ ''.''
                  else [])))
           else Inr (JObj (validated st)))\<close>

section \<open>The HTTP client\<close>

text \<open>
  The network and the JSON codec are the program's collaborators: \<open>fetch\<close> answers a
  request with a response or rejects with an error, \<open>JSON_parse\<close> decodes a text or
  throws (\<open>None\<close>), \<open>JSON_stringify\<close> encodes a value. A response offers what
  \<open>request\<close> reads of it: \<^verbatim>\<open>response.status\<close>, \<^verbatim>\<open>response.headers.get(name)\<close>
  and \<^verbatim>\<open>await response.text()\<close>.
\<close>

record RequestInit =
  http_method :: "string option"
  body :: "string option"

record http_request =
  url :: string
  init :: RequestInit
  headers :: "(string \<times> string) list"

record response =
  status :: nat
  headers_get :: "string \<Rightarrow> string option"
  body_text :: string

text \<open>\<^verbatim>\<open>response.ok\<close> is true for a status from 200 to 299 (the Fetch standard).\<close>

definition ok :: "response \<Rightarrow> bool" where
  "ok r = (200 \<le> status r \<and> status r \<le> 299)"

record env =
  fetch :: "http_request \<Rightarrow> error + response"
  JSON_parse :: "string \<Rightarrow> jsval option"
  JSON_stringify :: "jsval \<Rightarrow> string"

text \<open>
  An asynchronous call ends with a value or a thrown error, after issuing some
  requests: the outcome lists the requests in the order \<open>fetch\<close> received them.
\<close>

type_synonym 'a outcome = "http_request list \<times> (error + 'a)"

text \<open>A synchronous result, which issues nothing.\<close>

definition lift :: "error + 'a \<Rightarrow> 'a outcome" where
  "lift r = ([], r)"

text \<open>Sequencing: a thrown error skips what follows.\<close>

definition and_then :: "'a outcome \<Rightarrow> ('a \<Rightarrow> 'b outcome) \<Rightarrow> 'b outcome" where
  "and_then m k =
     (case m of
        (reqs, Inl err) \<Rightarrow> (reqs, Inl err)
      | (reqs, Inr x) \<Rightarrow> (case k x of (reqs', r) \<Rightarrow> (reqs @ reqs', r)))"

record FizzyClient =
  baseUrl :: string
  token :: string
  accountId :: string

text \<open>
  The constructor (lines 95 to 99). \<^verbatim>\<open>baseUrl.replace(/\/$/, "")\<close> removes a slash
  that stands at the very end of the text.
\<close>

definition strip_slash :: "string \<Rightarrow> string" where
  "strip_slash s = (if s \<noteq> [] \<and> last s = CHR ''/'' then butlast s else s)"

definition new_FizzyClient :: "string \<Rightarrow> string \<Rightarrow> string \<Rightarrow> FizzyClient" where
  "new_FizzyClient baseUrl' token' accountId' =
     \<lparr>baseUrl = strip_slash baseUrl', token = token', accountId = accountId'\<rparr>"

text \<open>The character classes \<^verbatim>\<open>[a-zA-Z0-9]\<close> and \<^verbatim>\<open>\d\<close>.\<close>

definition is_digit :: "char \<Rightarrow> bool" where
  "is_digit c = (48 \<le> (of_char c :: nat) \<and> (of_char c :: nat) \<le> 57)"

definition is_alnum :: "char \<Rightarrow> bool" where
  "is_alnum c =
     ((97 \<le> (of_char c :: nat) \<and> (of_char c :: nat) \<le> 122)
      \<or> (65 \<le> (of_char c :: nat) \<and> (of_char c :: nat) \<le> 90)
      \<or> is_digit c)"

text \<open>\<^verbatim>\<open>/^[a-zA-Z0-9]+$/.test(s)\<close>: one character or more, all of the class.\<close>

definition idPattern_test :: "string \<Rightarrow> bool" where
  "idPattern_test s = (s \<noteq> [] \<and> list_all is_alnum s)"

definition validateId :: "jsval \<Rightarrow> string \<Rightarrow> error + unit" where
  \<open>validateId id' paramName =
     (if \<not> truthy id' \<or> typeof id' \<noteq> ''string'' then
        Inl (Error (''Invalid '' @ paramName @ '': must be a non-empty string''))
      else if \<not> idPattern_test (to_string id') then
        Inl (Error (''Invalid '' @ paramName @ '': "'' @ to_string id'
          @ ''" contains invalid characters. Only alphanumeric characters are allowed.''))
      else Inr ())\<close>

text \<open>
  \<^verbatim>\<open>location.match(/\/cards\/(\d+)/)\<close>, reduced to its capture group: the leftmost
  place where \<^verbatim>\<open>/cards/\<close> is followed by a digit, and the digits that follow it.
\<close>

fun match_cards :: "string \<Rightarrow> string option" where
  "match_cards [] = None"
| "match_cards (c # cs) =
     (if take 7 (c # cs) = ''/cards/'' \<and> takeWhile is_digit (drop 7 (c # cs)) \<noteq> []
      then Some (takeWhile is_digit (drop 7 (c # cs)))
      else match_cards cs)"

text \<open>What \<open>request\<close> makes of the response (lines 128 to 158).\<close>

definition handle_response :: "env \<Rightarrow> response \<Rightarrow> error + jsval" where
  "handle_response e r =
     (if \<not> ok r then
        Inl (Error (''Fizzy API error ('' @ show_nat (status r) @ ''): '' @ body_text r))
      else if status r = 201 then
        (case headers_get r ''Location'' of
           Some location \<Rightarrow>
             if location \<noteq> [] then
               Inr (JObj [(''success'', JBool True),
                          (''message'', JStr ''Card created''),
                          (''card_number'',
                             case match_cards location of Some d \<Rightarrow> JStr d | None \<Rightarrow> JNull),
                          (''location'', JStr location)])
             else Inr (JObj [(''success'', JBool True)])
         | None \<Rightarrow> Inr (JObj [(''success'', JBool True)]))
      else if body_text r = [] then Inr (JObj [])
      else case JSON_parse e (body_text r) of
             Some v \<Rightarrow> Inr v
           | None \<Rightarrow> Inr (JObj [(''html'', JStr (body_text r))]))"

text \<open>
  \<open>request\<close> (lines 112 to 159) builds one request (lines 116 to 126) and calls
  \<open>fetch\<close> once. No caller passes headers of its own, so the headers sent are the
  three of lines 117 to 121.
\<close>

definition build_request :: "FizzyClient \<Rightarrow> string \<Rightarrow> RequestInit \<Rightarrow> http_request" where
  "build_request this path options =
     \<lparr>url = baseUrl this @ ''/'' @ accountId this @ path,
      init = options,
      headers = [(''Accept'', ''application/json''),
                 (''Content-Type'', ''application/json'')]
                @ (if token this \<noteq> []
                   then [(''Authorization'', ''Bearer '' @ token this)] else [])\<rparr>"

definition request :: "env \<Rightarrow> FizzyClient \<Rightarrow> string \<Rightarrow> RequestInit \<Rightarrow> jsval outcome" where
  "request e this path options =
     ([build_request this path options],
      case fetch e (build_request this path options) of
        Inl err \<Rightarrow> Inl err
      | Inr r \<Rightarrow> handle_response e r)"

text \<open>The options of a call that passes none.\<close>

definition no_options :: RequestInit where
  "no_options = \<lparr>http_method = None, body = None\<rparr>"

subsection \<open>Boards\<close>

definition listBoards :: "env \<Rightarrow> FizzyClient \<Rightarrow> jsval outcome" where
  "listBoards e this = request e this ''/boards'' no_options"

definition getBoard :: "env \<Rightarrow> FizzyClient \<Rightarrow> jsval \<Rightarrow> jsval outcome" where
  "getBoard e this boardId =
     and_then (lift (validateId boardId ''boardId''))
       (\<lambda>_. request e this (''/boards/'' @ to_string boardId) no_options)"

definition createBoard :: "env \<Rightarrow> FizzyClient \<Rightarrow> jsval \<Rightarrow> jsval \<Rightarrow> jsval outcome" where
  "createBoard e this name description =
     request e this ''/boards''
       \<lparr>http_method = Some ''POST'',
        body = Some (JSON_stringify e
          (JObj [(''board'', JObj [(''name'', name), (''description'', description)])]))\<rparr>"

subsection \<open>Cards\<close>

text \<open>
  The callback of the filter in \<open>listCards\<close>:
  \<^verbatim>\<open>c.board?.id === boardId || c.board_id === boardId\<close>.
\<close>

definition card_on_board :: "jsval \<Rightarrow> jsval \<Rightarrow> bool" where
  "card_on_board boardId c =
     (strict_equals
        (if get_prop c ''board'' = JNull \<or> get_prop c ''board'' = JUndefined then JUndefined
         else get_prop (get_prop c ''board'') ''id'')
        boardId
      \<or> strict_equals (get_prop c ''board_id'') boardId)"

text \<open>
  \<open>listCards\<close> (lines 179 to 186). The filter is a method of arrays only, and its
  callback reads a property of every element: on a decoded value that is no array,
  or on an array with a \<^verbatim>\<open>null\<close> element, the call throws a TypeError.
\<close>

definition listCards :: "env \<Rightarrow> FizzyClient \<Rightarrow> jsval \<Rightarrow> jsval outcome" where
  "listCards e this boardId =
     and_then (request e this ''/cards'' no_options)
       (\<lambda>cards.
          if truthy boardId then
            (case cards of
               JArr cs \<Rightarrow>
                 if list_ex (\<lambda>c. c = JNull \<or> c = JUndefined) cs then
                   lift (Inl (Error ''Cannot read properties of null (reading 'board')''))
                 else lift (Inr (JArr (filter (card_on_board boardId) cs)))
             | JNull \<Rightarrow> lift (Inl (Error ''Cannot read properties of null (reading 'filter')''))
             | _ \<Rightarrow> lift (Inl (Error ''cards.filter is not a function'')))
          else lift (Inr cards))"

definition getCard :: "env \<Rightarrow> FizzyClient \<Rightarrow> jsval \<Rightarrow> jsval outcome" where
  "getCard e this cardId =
     and_then (lift (validateId cardId ''cardId''))
       (\<lambda>_. request e this (''/cards/'' @ to_string cardId) no_options)"

definition createCard :: "env \<Rightarrow> FizzyClient \<Rightarrow> jsval \<Rightarrow> jsval \<Rightarrow> jsval \<Rightarrow> jsval outcome" where
  "createCard e this boardId title description =
     and_then (lift (validateId boardId ''boardId''))
       (\<lambda>_. request e this (''/boards/'' @ to_string boardId @ ''/cards'')
          \<lparr>http_method = Some ''POST'',
           body = Some (JSON_stringify e
             (JObj [(''card'', JObj [(''title'', title), (''description'', description)])]))\<rparr>)"

definition updateCard :: "env \<Rightarrow> FizzyClient \<Rightarrow> jsval \<Rightarrow> jsval \<Rightarrow> jsval outcome" where
  "updateCard e this cardId updates =
     and_then (lift (validateId cardId ''cardId''))
       (\<lambda>_. request e this (''/cards/'' @ to_string cardId)
          \<lparr>http_method = Some ''PATCH'',
           body = Some (JSON_stringify e (JObj [(''card'', updates)]))\<rparr>)"

text \<open>The three moves await their request and return nothing (\<^verbatim>\<open>Promise<void>\<close>).\<close>

definition moveCardToColumn :: "env \<Rightarrow> FizzyClient \<Rightarrow> jsval \<Rightarrow> jsval \<Rightarrow> jsval outcome" where
  "moveCardToColumn e this cardId columnId =
     and_then (lift (validateId cardId ''cardId''))
       (\<lambda>_. and_then (lift (validateId columnId ''columnId''))
          (\<lambda>_. and_then
             (request e this (''/cards/'' @ to_string cardId @ ''/column'')
                \<lparr>http_method = Some ''PATCH'',
                 body = Some (JSON_stringify e (JObj [(''column_id'', columnId)]))\<rparr>)
             (\<lambda>_. lift (Inr JUndefined))))"

definition moveCardToDone :: "env \<Rightarrow> FizzyClient \<Rightarrow> jsval \<Rightarrow> jsval outcome" where
  "moveCardToDone e this cardId =
     and_then (lift (validateId cardId ''cardId''))
       (\<lambda>_. and_then
          (request e this (''/cards/'' @ to_string cardId @ ''/closure'')
             \<lparr>http_method = Some ''POST'', body = None\<rparr>)
          (\<lambda>_. lift (Inr JUndefined)))"

definition moveCardToNotNow :: "env \<Rightarrow> FizzyClient \<Rightarrow> jsval \<Rightarrow> jsval outcome" where
  "moveCardToNotNow e this cardId =
     and_then (lift (validateId cardId ''cardId''))
       (\<lambda>_. and_then
          (request e this (''/cards/'' @ to_string cardId @ ''/not_now'')
             \<lparr>http_method = Some ''POST'', body = None\<rparr>)
          (\<lambda>_. lift (Inr JUndefined)))"

subsection \<open>Columns, comments and tags\<close>

definition listColumns :: "env \<Rightarrow> FizzyClient \<Rightarrow> jsval \<Rightarrow> jsval outcome" where
  "listColumns e this boardId =
     and_then (lift (validateId boardId ''boardId''))
       (\<lambda>_. request e this (''/boards/'' @ to_string boardId @ ''/columns'') no_options)"

definition listComments :: "env \<Rightarrow> FizzyClient \<Rightarrow> jsval \<Rightarrow> jsval outcome" where
  "listComments e this cardId =
     and_then (lift (validateId cardId ''cardId''))
       (\<lambda>_. request e this (''/cards/'' @ to_string cardId @ ''/comments'') no_options)"

definition addComment :: "env \<Rightarrow> FizzyClient \<Rightarrow> jsval \<Rightarrow> jsval \<Rightarrow> jsval outcome" where
  "addComment e this cardId body' =
     and_then (lift (validateId cardId ''cardId''))
       (\<lambda>_. request e this (''/cards/'' @ to_string cardId @ ''/comments'')
          \<lparr>http_method = Some ''POST'',
           body = Some (JSON_stringify e (JObj [(''comment'', JObj [(''body'', body')])]))\<rparr>)"

definition addTag :: "env \<Rightarrow> FizzyClient \<Rightarrow> jsval \<Rightarrow> jsval \<Rightarrow> jsval outcome" where
  "addTag e this cardId tagTitle =
     and_then (lift (validateId cardId ''cardId''))
       (\<lambda>_. and_then
          (request e this (''/cards/'' @ to_string cardId @ ''/taggings'')
             \<lparr>http_method = Some ''POST'',
              body = Some (JSON_stringify e (JObj [(''tag_title'', tagTitle)]))\<rparr>)
          (\<lambda>_. lift (Inr JUndefined)))"

definition removeTag :: "env \<Rightarrow> FizzyClient \<Rightarrow> jsval \<Rightarrow> jsval \<Rightarrow> jsval outcome" where
  "removeTag e this cardId tagTitle =
     and_then (lift (validateId cardId ''cardId''))
       (\<lambda>_. and_then
          (request e this (''/cards/'' @ to_string cardId @ ''/taggings'')
             \<lparr>http_method = Some ''POST'',
              body = Some (JSON_stringify e (JObj [(''tag_title'', tagTitle)]))\<rparr>)
          (\<lambda>_. lift (Inr JUndefined)))"

section \<open>The tool handler\<close>

text \<open>
  The \<^verbatim>\<open>switch\<close> of the tool handler (lines 525 to 616), inside its \<^verbatim>\<open>try\<close>: the
  outcome is the \<open>result\<close> that the handler serialises, or the error whose message it
  reports.
\<close>

definition call_tool :: "env \<Rightarrow> FizzyClient \<Rightarrow> string \<Rightarrow> jsval \<Rightarrow> jsval outcome" where
  "call_tool e client name args =
     (if name = ''fizzy_list_boards'' then listBoards e client
      else if name = ''fizzy_get_board'' then
        and_then (lift (validateToolArgs args [(''board_id'', ''string'')] name))
          (\<lambda>v. getBoard e client (get_prop v ''board_id''))
      else if name = ''fizzy_create_board'' then
        and_then (lift (validateToolArgs args
            [(''name'', ''string''), (''description'', ''string?'')] name))
          (\<lambda>v. createBoard e client (get_prop v ''name'') (get_prop v ''description''))
      else if name = ''fizzy_list_cards'' then
        and_then (lift (validateToolArgs args [(''board_id'', ''string?'')] name))
          (\<lambda>v. listCards e client (get_prop v ''board_id''))
      else if name = ''fizzy_get_card'' then
        and_then (lift (validateToolArgs args [(''card_id'', ''string'')] name))
          (\<lambda>v. getCard e client (get_prop v ''card_id''))
      else if name = ''fizzy_create_card'' then
        and_then (lift (validateToolArgs args
            [(''board_id'', ''string''), (''title'', ''string''), (''description'', ''string?'')]
            name))
          (\<lambda>v. createCard e client (get_prop v ''board_id'') (get_prop v ''title'')
                 (get_prop v ''description''))
      else if name = ''fizzy_update_card'' then
        and_then (lift (validateToolArgs args
            [(''card_id'', ''string''), (''title'', ''string?''), (''description'', ''string?'')]
            name))
          (\<lambda>v. updateCard e client (get_prop v ''card_id'')
                 (JObj [(''title'', get_prop v ''title''),
                        (''description'', get_prop v ''description'')]))
      else if name = ''fizzy_move_card'' then
        and_then (lift (validateToolArgs args
            [(''card_id'', ''string''), (''column'', ''string'')] name))
          (\<lambda>v. and_then
             (if strict_equals (get_prop v ''column'') (JStr ''done'') then
                moveCardToDone e client (get_prop v ''card_id'')
              else if strict_equals (get_prop v ''column'') (JStr ''not_now'') then
                moveCardToNotNow e client (get_prop v ''card_id'')
              else moveCardToColumn e client (get_prop v ''card_id'') (get_prop v ''column''))
             (\<lambda>_. lift (Inr (JObj [(''success'', JBool True),
                  (''message'', JStr (''Card moved to '' @ to_string (get_prop v ''column'')))]))))
      else if name = ''fizzy_list_columns'' then
        and_then (lift (validateToolArgs args [(''board_id'', ''string'')] name))
          (\<lambda>v. listColumns e client (get_prop v ''board_id''))
      else if name = ''fizzy_add_comment'' then
        and_then (lift (validateToolArgs args
            [(''card_id'', ''string''), (''body'', ''string'')] name))
          (\<lambda>v. addComment e client (get_prop v ''card_id'') (get_prop v ''body''))
      else if name = ''fizzy_list_comments'' then
        and_then (lift (validateToolArgs args [(''card_id'', ''string'')] name))
          (\<lambda>v. listComments e client (get_prop v ''card_id''))
      else if name = ''fizzy_add_tag'' then
        and_then (lift (validateToolArgs args
            [(''card_id'', ''string''), (''tag'', ''string'')] name))
          (\<lambda>v. and_then (addTag e client (get_prop v ''card_id'') (get_prop v ''tag''))
             (\<lambda>_. lift (Inr (JObj [(''success'', JBool True),
                  (''message'', JStr (''Tag '' @ [CHR 0x27] @ to_string (get_prop v ''tag'')
                     @ [CHR 0x27] @ '' added to card''))]))))
      else if name = ''fizzy_remove_tag'' then
        and_then (lift (validateToolArgs args
            [(''card_id'', ''string''), (''tag'', ''string'')] name))
          (\<lambda>v. and_then (removeTag e client (get_prop v ''card_id'') (get_prop v ''tag''))
             (\<lambda>_. lift (Inr (JObj [(''success'', JBool True),
                  (''message'', JStr (''Tag '' @ [CHR 0x27] @ to_string (get_prop v ''tag'')
                     @ [CHR 0x27] @ '' removed from card''))]))))
      else lift (Inl (Error (''Unknown tool: '' @ name))))"

section \<open>The tool table\<close>

text \<open>
  \<open>TOOLS\<close> (lines 279 to 495): a tool has a name, a description and an input schema;
  the schema lists the properties, each with its type and description, and the names
  of the required ones.
\<close>

record property =
  prop_type :: string
  prop_description :: string

record inputSchema =
  schema_type :: string
  properties :: "(string \<times> property) list"
  required :: "string list"

record tool =
  tool_name :: string
  tool_description :: string
  tool_inputSchema :: inputSchema

definition TOOLS :: "tool list" where
  "TOOLS =
    [\<lparr>tool_name = ''fizzy_list_boards'',
      tool_description = ''List all Fizzy boards in the account'',
      tool_inputSchema = \<lparr>schema_type = ''object'', properties = [], required = []\<rparr>\<rparr>,
     \<lparr>tool_name = ''fizzy_get_board'',
      tool_description = ''Get details of a specific Fizzy board'',
      tool_inputSchema = \<lparr>schema_type = ''object'',
        properties =
          [(''board_id'', \<lparr>prop_type = ''string'', prop_description = ''The ID of the board''\<rparr>)],
        required = [''board_id'']\<rparr>\<rparr>,
     \<lparr>tool_name = ''fizzy_create_board'',
      tool_description = ''Create a new Fizzy board'',
      tool_inputSchema = \<lparr>schema_type = ''object'',
        properties =
          [(''name'', \<lparr>prop_type = ''string'', prop_description = ''Name of the board''\<rparr>),
           (''description'', \<lparr>prop_type = ''string'',
              prop_description = ''Optional description of the board''\<rparr>)],
        required = [''name'']\<rparr>\<rparr>,
     \<lparr>tool_name = ''fizzy_list_cards'',
      tool_description = ''List cards. Optionally filter by board ID.'',
      tool_inputSchema = \<lparr>schema_type = ''object'',
        properties =
          [(''board_id'', \<lparr>prop_type = ''string'',
              prop_description = ''Optional: filter cards by board ID''\<rparr>)],
        required = []\<rparr>\<rparr>,
     \<lparr>tool_name = ''fizzy_get_card'',
      tool_description = ''Get details of a specific card'',
      tool_inputSchema = \<lparr>schema_type = ''object'',
        properties =
          [(''card_id'', \<lparr>prop_type = ''string'', prop_description = ''The ID of the card''\<rparr>)],
        required = [''card_id'']\<rparr>\<rparr>,
     \<lparr>tool_name = ''fizzy_create_card'',
      tool_description = ''Create a new card on a Fizzy board'',
      tool_inputSchema = \<lparr>schema_type = ''object'',
        properties =
          [(''board_id'', \<lparr>prop_type = ''string'', prop_description = ''The ID of the board''\<rparr>),
           (''title'', \<lparr>prop_type = ''string'', prop_description = ''Title of the card''\<rparr>),
           (''description'', \<lparr>prop_type = ''string'',
              prop_description =
                ''Optional description of the card (supports HTML with links)''\<rparr>)],
        required = [''board_id'', ''title'']\<rparr>\<rparr>,
     \<lparr>tool_name = ''fizzy_update_card'',
      tool_description = ''Update an existing card'',
      tool_inputSchema = \<lparr>schema_type = ''object'',
        properties =
          [(''card_id'', \<lparr>prop_type = ''string'', prop_description = ''The ID of the card''\<rparr>),
           (''title'', \<lparr>prop_type = ''string'', prop_description = ''New title for the card''\<rparr>),
           (''description'', \<lparr>prop_type = ''string'',
              prop_description =
                ''New description for the card (supports HTML with links)''\<rparr>)],
        required = [''card_id'']\<rparr>\<rparr>,
     \<lparr>tool_name = ''fizzy_move_card'',
      tool_description =
        ''Move a card to a different column (use 'done' or 'not_now' for special columns)'',
      tool_inputSchema = \<lparr>schema_type = ''object'',
        properties =
          [(''card_id'', \<lparr>prop_type = ''string'', prop_description = ''The ID of the card''\<rparr>),
           (''column'', \<lparr>prop_type = ''string'',
              prop_description =
                ''Target column: 'done', 'not_now', or a column ID for custom columns''\<rparr>)],
        required = [''card_id'', ''column'']\<rparr>\<rparr>,
     \<lparr>tool_name = ''fizzy_list_columns'',
      tool_description = ''List all columns on a Fizzy board'',
      tool_inputSchema = \<lparr>schema_type = ''object'',
        properties =
          [(''board_id'', \<lparr>prop_type = ''string'', prop_description = ''The ID of the board''\<rparr>)],
        required = [''board_id'']\<rparr>\<rparr>,
     \<lparr>tool_name = ''fizzy_add_comment'',
      tool_description = ''Add a comment to a card'',
      tool_inputSchema = \<lparr>schema_type = ''object'',
        properties =
          [(''card_id'', \<lparr>prop_type = ''string'', prop_description = ''The ID of the card''\<rparr>),
           (''body'', \<lparr>prop_type = ''string'',
              prop_description = ''Comment text (supports HTML)''\<rparr>)],
        required = [''card_id'', ''body'']\<rparr>\<rparr>,
     \<lparr>tool_name = ''fizzy_list_comments'',
      tool_description = ''List all comments on a card'',
      tool_inputSchema = \<lparr>schema_type = ''object'',
        properties =
          [(''card_id'', \<lparr>prop_type = ''string'',
              prop_description = ''The ID or number of the card''\<rparr>)],
        required = [''card_id'']\<rparr>\<rparr>,
     \<lparr>tool_name = ''fizzy_add_tag'',
      tool_description = ''Add a tag to a card. Creates the tag if it doesn't exist.'',
      tool_inputSchema = \<lparr>schema_type = ''object'',
        properties =
          [(''card_id'', \<lparr>prop_type = ''string'',
              prop_description = ''The ID or number of the card''\<rparr>),
           (''tag'', \<lparr>prop_type = ''string'', prop_description = ''Tag name to add''\<rparr>)],
        required = [''card_id'', ''tag'']\<rparr>\<rparr>,
     \<lparr>tool_name = ''fizzy_remove_tag'',
      tool_description = ''Remove a tag from a card'',
      tool_inputSchema = \<lparr>schema_type = ''object'',
        properties =
          [(''card_id'', \<lparr>prop_type = ''string'',
              prop_description = ''The ID or number of the card''\<rparr>),
           (''tag'', \<lparr>prop_type = ''string'', prop_description = ''Tag name to remove''\<rparr>)],
        required = [''card_id'', ''tag'']\<rparr>\<rparr>]"

section \<open>The specification's vocabulary\<close>

text \<open>
  The argument schema that the handler passes to \<open>validateToolArgs\<close> for each tool
  (the object literals of lines 531 to 608); \<open>fizzy_list_boards\<close> validates nothing.
\<close>

definition declared_schema :: "string \<Rightarrow> (string \<times> string) list option" where
  "declared_schema name =
     (if name = ''fizzy_get_board'' then Some [(''board_id'', ''string'')]
      else if name = ''fizzy_create_board'' then
        Some [(''name'', ''string''), (''description'', ''string?'')]
      else if name = ''fizzy_list_cards'' then Some [(''board_id'', ''string?'')]
      else if name = ''fizzy_get_card'' then Some [(''card_id'', ''string'')]
      else if name = ''fizzy_create_card'' then
        Some [(''board_id'', ''string''), (''title'', ''string''), (''description'', ''string?'')]
      else if name = ''fizzy_update_card'' then
        Some [(''card_id'', ''string''), (''title'', ''string?''), (''description'', ''string?'')]
      else if name = ''fizzy_move_card'' then
        Some [(''card_id'', ''string''), (''column'', ''string'')]
      else if name = ''fizzy_list_columns'' then Some [(''board_id'', ''string'')]
      else if name = ''fizzy_add_comment'' then
        Some [(''card_id'', ''string''), (''body'', ''string'')]
      else if name = ''fizzy_list_comments'' then Some [(''card_id'', ''string'')]
      else if name = ''fizzy_add_tag'' then Some [(''card_id'', ''string''), (''tag'', ''string'')]
      else if name = ''fizzy_remove_tag'' then
        Some [(''card_id'', ''string''), (''tag'', ''string'')]
      else None)"

text \<open>
  What the specification says a validation reports, stated on the schema as a whole
  rather than by the loop: a field is absent when it reads as \<^verbatim>\<open>undefined\<close> or
  \<^verbatim>\<open>null\<close>; the missing fields are the required absent ones; the wrong-type fields
  are the present ones whose \<^verbatim>\<open>typeof\<close> differs from the declared type, each with
  the expected and the actual type; the validated bag holds the remaining present
  fields.
\<close>

definition absent :: "jsval \<Rightarrow> bool" where
  "absent v = (v = JUndefined \<or> v = JNull)"

definition is_optional :: "string \<Rightarrow> bool" where
  "is_optional expectedType = endsWith expectedType ''?''"

definition base_type :: "string \<Rightarrow> string" where
  "base_type expectedType =
     (if endsWith expectedType ''?'' then butlast expectedType else expectedType)"

definition spec_missing :: "jsval \<Rightarrow> (string \<times> string) list \<Rightarrow> string list" where
  "spec_missing args schema =
     map fst (filter (\<lambda>entry. \<not> is_optional (snd entry) \<and> absent (get_prop args (fst entry)))
       schema)"

definition spec_wrongType :: "jsval \<Rightarrow> (string \<times> string) list \<Rightarrow> string list" where
  "spec_wrongType args schema =
     map (\<lambda>entry. fst entry @ '' (expected '' @ base_type (snd entry) @ '', got ''
                   @ typeof (get_prop args (fst entry)) @ '')'')
       (filter (\<lambda>entry. \<not> absent (get_prop args (fst entry))
                  \<and> typeof (get_prop args (fst entry)) \<noteq> base_type (snd entry))
          schema)"

definition spec_validated :: "jsval \<Rightarrow> (string \<times> string) list \<Rightarrow> (string \<times> jsval) list" where
  "spec_validated args schema =
     map (\<lambda>entry. (fst entry, get_prop args (fst entry)))
       (filter (\<lambda>entry. \<not> absent (get_prop args (fst entry))
                  \<and> typeof (get_prop args (fst entry)) = base_type (snd entry))
          schema)"

text \<open>The one message that reports both lists.\<close>

definition spec_message :: "string \<Rightarrow> string list \<Rightarrow> string list \<Rightarrow> string" where
  "spec_message toolName ms ws =
     ''Tool '' @ [CHR 0x27] @ toolName @ [CHR 0x27] @ '' validation failed:''
     @ (if ms = [] then [] else '' Missing: '' @ join '', '' ms @ ''.'')
     @ (if ws = [] then [] else '' Wrong type: '' @ join '', '' ws @ ''.'')"

text \<open>
  An identifier is a non-empty string of ASCII letters and digits: the two guards
  of \<open>validateId\<close>, as one predicate, and the message for a value that fails them.
\<close>

definition valid_identifier :: "jsval \<Rightarrow> bool" where
  "valid_identifier v = (truthy v \<and> typeof v = ''string'' \<and> idPattern_test (to_string v))"

definition invalid_id_message :: "string \<Rightarrow> string \<Rightarrow> string" where
  \<open>invalid_id_message paramName s =
     (if s = [] then ''Invalid '' @ paramName @ '': must be a non-empty string''
      else ''Invalid '' @ paramName @ '': "'' @ s
        @ ''" contains invalid characters. Only alphanumeric characters are allowed.'')\<close>

text \<open>
  The identifiers that a tool call places in the path, in the order in which the
  client method checks them: the argument's name, and the parameter name under
  which \<open>validateId\<close> reports it. A move names the column only when the column is
  neither \<^verbatim>\<open>done\<close> nor \<^verbatim>\<open>not_now\<close>.
\<close>

definition id_params :: "string \<Rightarrow> jsval \<Rightarrow> (string \<times> string) list" where
  "id_params name args =
     (if name \<in> {''fizzy_get_board'', ''fizzy_create_card'', ''fizzy_list_columns''} then
        [(''board_id'', ''boardId'')]
      else if name \<in> {''fizzy_get_card'', ''fizzy_update_card'', ''fizzy_add_comment'',
          ''fizzy_list_comments'', ''fizzy_add_tag'', ''fizzy_remove_tag''} then
        [(''card_id'', ''cardId'')]
      else if name = ''fizzy_move_card'' then
        (if get_prop args ''column'' = JStr ''done'' \<or> get_prop args ''column'' = JStr ''not_now''
         then [(''card_id'', ''cardId'')]
         else [(''card_id'', ''cardId''), (''column'', ''columnId'')])
      else [])"

text \<open>
  \<open>/cards/\<close> followed by a digit stands at offset \<open>i\<close> of a text: an occurrence of
  the pattern \<^verbatim>\<open>/\/cards\/(\d+)/\<close>.
\<close>

definition cards_at :: "string \<Rightarrow> nat \<Rightarrow> bool" where
  "cards_at l i =
     (take 7 (drop i l) = ''/cards/'' \<and> takeWhile is_digit (drop (i + 7) l) \<noteq> [])"

section \<open>Simulated collaborators\<close>

text \<open>
  A response with a given status, \<^verbatim>\<open>Location\<close> header and body; a decoder that knows
  three texts; and an environment whose network answers every request with one
  response. The encoder prints strings without escapes, which is enough for the
  texts used below.
\<close>

definition respond :: "nat \<Rightarrow> string option \<Rightarrow> string \<Rightarrow> response" where
  "respond code location text' =
     \<lparr>status = code,
      headers_get = (\<lambda>h. if h = ''Location'' then location else None),
      body_text = text'\<rparr>"

definition simple_parse :: "string \<Rightarrow> jsval option" where
  \<open>simple_parse s =
     (if s = ''[]'' then Some (JArr [])
      else if s = ''{"id":"7"}'' then Some (JObj [(''id'', JStr ''7'')])
      else if s = ''null'' then Some JNull
      else None)\<close>

fun simple_stringify :: "jsval \<Rightarrow> string" where
  \<open>simple_stringify JUndefined = ''undefined''\<close>
| \<open>simple_stringify JNull = ''null''\<close>
| \<open>simple_stringify (JBool b) = (if b then ''true'' else ''false'')\<close>
| \<open>simple_stringify (JNum n) = show_int n\<close>
| \<open>simple_stringify (JStr s) = ''"'' @ s @ ''"''\<close>
| \<open>simple_stringify (JArr xs) =
     ''['' @ join '','' (map (\<lambda>x. if x = JUndefined then ''null'' else simple_stringify x) xs)
     @ '']''\<close>
| \<open>simple_stringify (JObj kvs) =
     ''{'' @ join '',''
        (map (\<lambda>kv. ''"'' @ fst kv @ ''":'' @ simple_stringify (snd kv))
           (filter (\<lambda>kv. snd kv \<noteq> JUndefined) kvs))
     @ ''}''\<close>

definition answering :: "response \<Rightarrow> env" where
  "answering r =
     \<lparr>fetch = (\<lambda>req. Inr r), JSON_parse = simple_parse, JSON_stringify = simple_stringify\<rparr>"

definition local_client :: FizzyClient where
  "local_client = new_FizzyClient ''http://localhost:3737/'' ''secret'' ''1''"

section \<open>Sequencing and the validation loop\<close>

lemma and_then_lift_Inl: "and_then (lift (Inl err)) k = ([], Inl err)"
  by (simp add: and_then_def lift_def)

lemma and_then_lift_Inr: "and_then (lift (Inr x)) k = k x"
  by (simp add: and_then_def lift_def split: prod.splits)

lemma validate_field_missing:
  "missing (validate_field args st entry) = missing st @ spec_missing args [entry]"
  by (simp add: validate_field_def spec_missing_def absent_def is_optional_def Let_def)

lemma validate_field_wrongType:
  "wrongType (validate_field args st entry) = wrongType st @ spec_wrongType args [entry]"
  by (simp add: validate_field_def spec_wrongType_def absent_def base_type_def Let_def)

lemma spec_missing_Cons:
  "spec_missing args (entry # entries) = spec_missing args [entry] @ spec_missing args entries"
  by (simp add: spec_missing_def)

lemma spec_wrongType_Cons:
  "spec_wrongType args (entry # entries) = spec_wrongType args [entry] @ spec_wrongType args entries"
  by (simp add: spec_wrongType_def)

lemma spec_validated_Cons:
  "spec_validated args (entry # entries) = spec_validated args [entry] @ spec_validated args entries"
  by (simp add: spec_validated_def)

lemma validate_loop_missing:
  "missing (validate_loop args schema st) = missing st @ spec_missing args schema"
proof (induction schema arbitrary: st)
  case Nil
  show ?case by (simp add: spec_missing_def)
next
  case (Cons entry entries)
  show ?case
    using Cons.IH [of "validate_field args st entry"]
    by (simp add: validate_field_missing spec_missing_Cons [of args entry entries])
qed

lemma validate_loop_wrongType:
  "wrongType (validate_loop args schema st) = wrongType st @ spec_wrongType args schema"
proof (induction schema arbitrary: st)
  case Nil
  show ?case by (simp add: spec_wrongType_def)
next
  case (Cons entry entries)
  show ?case
    using Cons.IH [of "validate_field args st entry"]
    by (simp add: validate_field_wrongType spec_wrongType_Cons [of args entry entries])
qed

lemma set_prop_fresh: "k \<notin> fst ` set kvs \<Longrightarrow> set_prop kvs k v = kvs @ [(k, v)]"
  by (induction kvs) auto

lemma validate_field_validated:
  "fst entry \<notin> fst ` set (validated st) \<Longrightarrow>
   validated (validate_field args st entry) = validated st @ spec_validated args [entry]"
  by (simp add: validate_field_def spec_validated_def absent_def base_type_def Let_def set_prop_fresh)

lemma spec_validated_keys: "fst ` set (spec_validated args schema) \<subseteq> fst ` set schema"
  by (induction schema) (auto simp: spec_validated_def)

lemma validate_loop_validated:
  "distinct (map fst schema) \<Longrightarrow> fst ` set (validated st) \<inter> fst ` set schema = {} \<Longrightarrow>
   validated (validate_loop args schema st) = validated st @ spec_validated args schema"
proof (induction schema arbitrary: st)
  case Nil
  show ?case by (simp add: spec_validated_def)
next
  case (Cons entry entries)
  define A where "A = fst ` set (validated st)"
  define B where "B = fst ` set entries"
  define C where "C = fst ` set (spec_validated args [entry])"
  have AB: "A \<inter> insert (fst entry) B = {}"
    using Cons.prems(2) by (simp add: A_def B_def)
  have nB: "fst entry \<notin> B"
    using Cons.prems(1) by (simp add: B_def)
  have fresh: "fst entry \<notin> fst ` set (validated st)"
    using AB unfolding A_def by blast
  have step: "validated (validate_field args st entry) = validated st @ spec_validated args [entry]"
    by (rule validate_field_validated [OF fresh])
  have keys: "C \<subseteq> {fst entry}"
    using spec_validated_keys [of args "[entry]"] by (simp add: C_def)
  have "(A \<union> C) \<inter> B = {}"
    using AB nB keys by blast
  then have disj: "fst ` set (validated (validate_field args st entry)) \<inter> fst ` set entries = {}"
    by (simp add: step A_def B_def C_def image_Un)
  have "validated (validate_loop args entries (validate_field args st entry))
        = validated (validate_field args st entry) @ spec_validated args entries"
    using Cons.IH [OF _ disj] Cons.prems(1) by simp
  then show ?case
    by (simp add: step spec_validated_Cons [of args entry entries])
qed

lemma validateToolArgs_spec:
  assumes "truthy args" and "typeof args = ''object''"
  shows "validateToolArgs args schema toolName =
     (if spec_missing args schema = [] \<and> spec_wrongType args schema = []
      then Inr (JObj (validated (validate_loop args schema
                  \<lparr>validated = [], missing = [], wrongType = []\<rparr>)))
      else Inl (Error (spec_message toolName (spec_missing args schema)
                  (spec_wrongType args schema))))"
  using assms
  by (simp add: validateToolArgs_def Let_def validate_loop_missing validate_loop_wrongType
      spec_message_def)

lemma distinct_declared: "declared_schema name = Some schema \<Longrightarrow> distinct (map fst schema)"
  by (auto simp: declared_schema_def split: if_splits)

lemma validateToolArgs_bag:
  assumes "truthy args" and "typeof args = ''object''" and "distinct (map fst schema)"
  shows "validateToolArgs args schema toolName =
     (if spec_missing args schema = [] \<and> spec_wrongType args schema = []
      then Inr (JObj (spec_validated args schema))
      else Inl (Error (spec_message toolName (spec_missing args schema)
                  (spec_wrongType args schema))))"
  using validate_loop_validated [of schema "\<lparr>validated = [], missing = [], wrongType = []\<rparr>" args]
    assms(3)
  by (simp add: validateToolArgs_spec [OF assms(1,2)])

lemma call_tool_validation_fails:
  assumes "declared_schema name = Some schema"
    and "validateToolArgs args schema name = Inl err"
  shows "call_tool e c name args = ([], Inl err)"
  using assms
  by (auto simp: declared_schema_def call_tool_def and_then_lift_Inl split: if_splits)

section \<open>Argument validation reports every violation\<close>

text \<open>
  C3. For every tool with a declared schema and every argument bag (a truthy value
  whose \<^verbatim>\<open>typeof\<close> is \<^verbatim>\<open>object\<close>), validation either succeeds with the bag of the
  well-typed declared fields, or fails with one error whose message lists all the
  missing required fields and all the present fields of the wrong type, each with
  its expected and actual type. Whenever validation fails, for any arguments at all,
  the tool call ends with that error and has issued no request.
\<close>

theorem validation_reports_every_violation:
  assumes "declared_schema name = Some schema"
  shows "(truthy args \<and> typeof args = ''object'' \<longrightarrow>
            validateToolArgs args schema name =
              (if spec_missing args schema = [] \<and> spec_wrongType args schema = []
               then Inr (JObj (spec_validated args schema))
               else Inl (Error (spec_message name (spec_missing args schema)
                           (spec_wrongType args schema)))))
       \<and> (\<forall>err. validateToolArgs args schema name = Inl err \<longrightarrow>
            call_tool e c name args = ([], Inl err))"
proof (intro conjI impI allI)
  assume "truthy args \<and> typeof args = ''object''"
  then show "validateToolArgs args schema name =
      (if spec_missing args schema = [] \<and> spec_wrongType args schema = []
       then Inr (JObj (spec_validated args schema))
       else Inl (Error (spec_message name (spec_missing args schema)
                   (spec_wrongType args schema))))"
    using validateToolArgs_bag [of args schema name] distinct_declared [OF assms] by simp
next
  fix err
  assume "validateToolArgs args schema name = Inl err"
  then show "call_tool e c name args = ([], Inl err)"
    by (rule call_tool_validation_fails [OF assms])
qed

theorem validation_reports_every_violation_witness:
  "declared_schema ''fizzy_move_card'' = Some [(''card_id'', ''string''), (''column'', ''string'')]
   \<and> validateToolArgs (JObj [(''card_id'', JNum 3)])
         [(''card_id'', ''string''), (''column'', ''string'')] ''fizzy_move_card''
       = Inl (Error (''Tool 'fizzy_move_card' validation failed: Missing: column.''
                     @ '' Wrong type: card_id (expected string, got number).''))
   \<and> call_tool (answering (respond 200 None [])) local_client ''fizzy_move_card''
         (JObj [(''card_id'', JNum 3)])
       = ([], Inl (Error (''Tool 'fizzy_move_card' validation failed: Missing: column.''
                     @ '' Wrong type: card_id (expected string, got number).'')))"
proof -
  have schema: "declared_schema ''fizzy_move_card''
      = Some [(''card_id'', ''string''), (''column'', ''string'')]"
    by (simp add: declared_schema_def)
  have failed: "validateToolArgs (JObj [(''card_id'', JNum 3)])
         [(''card_id'', ''string''), (''column'', ''string'')] ''fizzy_move_card''
       = Inl (Error (''Tool 'fizzy_move_card' validation failed: Missing: column.''
                     @ '' Wrong type: card_id (expected string, got number).''))"
    using validation_reports_every_violation [OF schema, of "JObj [(''card_id'', JNum 3)]"]
    by (simp add: spec_missing_def spec_wrongType_def spec_message_def absent_def
        is_optional_def base_type_def endsWith_def)
  show ?thesis
    using schema failed
      validation_reports_every_violation [OF schema, of "JObj [(''card_id'', JNum 3)]"
        "answering (respond 200 None [])" local_client]
    by simp
qed

section \<open>A field bound to null\<close>

lemma map_of_without:
  "map_of (filter (\<lambda>kv. fst kv \<noteq> f) kvs) g = (if g = f then None else map_of kvs g)"
  by (induction kvs) auto

lemma get_prop_without:
  "get_prop (JObj (filter (\<lambda>kv. fst kv \<noteq> f) kvs)) g
     = (if g = f then JUndefined else get_prop (JObj kvs) g)"
  by (simp add: map_of_without)

lemma validate_field_null:
  assumes "map_of kvs f = Some JNull"
  shows "validate_field (JObj (filter (\<lambda>kv. fst kv \<noteq> f) kvs)) st entry
         = validate_field (JObj kvs) st entry"
proof (cases "fst entry = f")
  case True
  then show ?thesis
    using assms by (simp add: validate_field_def Let_def map_of_without)
next
  case False
  then show ?thesis
    by (simp add: validate_field_def Let_def map_of_without)
qed

lemma validate_loop_null:
  assumes "map_of kvs f = Some JNull"
  shows "validate_loop (JObj (filter (\<lambda>kv. fst kv \<noteq> f) kvs)) schema st
         = validate_loop (JObj kvs) schema st"
  by (induction schema arbitrary: st) (simp_all add: validate_field_null [OF assms])

lemma validateToolArgs_null:
  assumes "map_of kvs f = Some JNull"
  shows "validateToolArgs (JObj (filter (\<lambda>kv. fst kv \<noteq> f) kvs)) schema name
         = validateToolArgs (JObj kvs) schema name"
  by (simp add: validateToolArgs_def validate_loop_null [OF assms])

lemma validate_field_optional_absent:
  "is_optional (snd entry) \<Longrightarrow> absent (get_prop args (fst entry)) \<Longrightarrow>
   validate_field args st entry = st"
  by (simp add: validate_field_def Let_def is_optional_def absent_def)

lemma validate_loop_skip_optional:
  assumes "\<forall>t. (f, t) \<in> set schema \<longrightarrow> is_optional t" and "absent (get_prop args f)"
  shows "validate_loop args (filter (\<lambda>entry. fst entry \<noteq> f) schema) st
         = validate_loop args schema st"
  using assms(1)
proof (induction schema arbitrary: st)
  case Nil
  show ?case by simp
next
  case (Cons entry entries)
  have rest: "\<forall>t. (f, t) \<in> set entries \<longrightarrow> is_optional t"
    using Cons.prems by simp
  show ?case
  proof (cases "fst entry = f")
    case True
    have "is_optional (snd entry)"
      using Cons.prems True by (cases entry) simp
    then have "validate_field args st entry = st"
      using assms(2) True by (simp add: validate_field_optional_absent)
    then show ?thesis
      using True Cons.IH [OF rest] by simp
  next
    case False
    then show ?thesis
      using Cons.IH [OF rest] by simp
  qed
qed

lemma validateToolArgs_skip_optional:
  assumes "\<forall>t. (f, t) \<in> set schema \<longrightarrow> is_optional t" and "absent (get_prop args f)"
  shows "validateToolArgs args (filter (\<lambda>entry. fst entry \<noteq> f) schema) name
         = validateToolArgs args schema name"
  by (simp add: validateToolArgs_def validate_loop_skip_optional [OF assms])

lemma spec_missing_member:
  "(f, t) \<in> set schema \<Longrightarrow> \<not> is_optional t \<Longrightarrow> absent (get_prop args f) \<Longrightarrow>
   f \<in> set (spec_missing args schema)"
  by (force simp: spec_missing_def)

lemma spec_wrongType_skip_absent:
  "absent (get_prop args f) \<Longrightarrow>
   spec_wrongType args (filter (\<lambda>entry. fst entry \<noteq> f) schema) = spec_wrongType args schema"
  by (induction schema) (auto simp: spec_wrongType_def)

text \<open>
  The fields of a declared schema are among eight names, none of which an object
  inherits from its prototype: for them the model's property read is the source's.
\<close>

lemma declared_fields:
  "declared_schema name = Some schema \<Longrightarrow>
   set (map fst schema) \<subseteq> {''board_id'', ''name'', ''description'', ''card_id'', ''title'',
     ''column'', ''body'', ''tag''}"
  by (auto simp: declared_schema_def split: if_splits)

text \<open>
  C10. For every tool with a declared schema, validation treats a field bound to
  \<^verbatim>\<open>null\<close> exactly like an absent field: the result for a bag that binds \<open>f\<close> to
  \<^verbatim>\<open>null\<close> is the result for the same bag without \<open>f\<close>. The field adds nothing to
  the wrong-type list. When the schema requires \<open>f\<close>, it is in the missing list and
  validation fails with the message that reports it. When the schema declares \<open>f\<close>
  optional, the result is what the schema without \<open>f\<close> gives: nothing is reported
  and nothing is stored for \<open>f\<close>.
\<close>

theorem null_field_treated_as_absent:
  assumes declared: "declared_schema name = Some schema"
    and bound: "map_of kvs f = Some JNull"
  shows "validateToolArgs (JObj kvs) schema name
           = validateToolArgs (JObj (filter (\<lambda>kv. fst kv \<noteq> f) kvs)) schema name
       \<and> spec_wrongType (JObj kvs) schema
           = spec_wrongType (JObj kvs) (filter (\<lambda>entry. fst entry \<noteq> f) schema)
       \<and> ((\<exists>t. (f, t) \<in> set schema \<and> \<not> is_optional t) \<longrightarrow>
            f \<in> set (spec_missing (JObj kvs) schema)
            \<and> validateToolArgs (JObj kvs) schema name
                = Inl (Error (spec_message name (spec_missing (JObj kvs) schema)
                         (spec_wrongType (JObj kvs) schema))))
       \<and> ((\<forall>t. (f, t) \<in> set schema \<longrightarrow> is_optional t) \<longrightarrow>
            validateToolArgs (JObj kvs) schema name
              = validateToolArgs (JObj kvs) (filter (\<lambda>entry. fst entry \<noteq> f) schema) name)"
proof -
  have null: "absent (get_prop (JObj kvs) f)"
    using bound by (simp add: absent_def)
  have same: "validateToolArgs (JObj kvs) schema name
      = validateToolArgs (JObj (filter (\<lambda>kv. fst kv \<noteq> f) kvs)) schema name"
    by (rule validateToolArgs_null [OF bound, symmetric])
  have wrong: "spec_wrongType (JObj kvs) schema
      = spec_wrongType (JObj kvs) (filter (\<lambda>entry. fst entry \<noteq> f) schema)"
    by (rule spec_wrongType_skip_absent [OF null, symmetric])
  have required: "f \<in> set (spec_missing (JObj kvs) schema)
      \<and> validateToolArgs (JObj kvs) schema name
          = Inl (Error (spec_message name (spec_missing (JObj kvs) schema)
                   (spec_wrongType (JObj kvs) schema)))"
    if "\<exists>t. (f, t) \<in> set schema \<and> \<not> is_optional t"
  proof -
    from that obtain t where t: "(f, t) \<in> set schema" "\<not> is_optional t"
      by blast
    have mem: "f \<in> set (spec_missing (JObj kvs) schema)"
      by (rule spec_missing_member [OF t null])
    then have "spec_missing (JObj kvs) schema \<noteq> []"
      by (cases "spec_missing (JObj kvs) schema") simp_all
    then show ?thesis
      using mem validateToolArgs_spec [of "JObj kvs" schema name] by simp
  qed
  have optional: "validateToolArgs (JObj kvs) schema name
      = validateToolArgs (JObj kvs) (filter (\<lambda>entry. fst entry \<noteq> f) schema) name"
    if "\<forall>t. (f, t) \<in> set schema \<longrightarrow> is_optional t"
    by (rule validateToolArgs_skip_optional [OF that null, symmetric])
  show ?thesis
    using same wrong required optional by blast
qed

theorem null_field_treated_as_absent_witness:
  "declared_schema ''fizzy_update_card''
     = Some [(''card_id'', ''string''), (''title'', ''string?''), (''description'', ''string?'')]
   \<and> map_of [(''card_id'', JNull), (''title'', JStr ''x'')] ''card_id'' = Some JNull
   \<and> validateToolArgs (JObj [(''card_id'', JNull), (''title'', JStr ''x'')])
         [(''card_id'', ''string''), (''title'', ''string?''), (''description'', ''string?'')]
         ''fizzy_update_card''
       = Inl (Error ''Tool 'fizzy_update_card' validation failed: Missing: card_id.'')
   \<and> validateToolArgs (JObj [(''title'', JNull), (''card_id'', JStr ''7'')])
         [(''card_id'', ''string''), (''title'', ''string?''), (''description'', ''string?'')]
         ''fizzy_update_card''
       = Inr (JObj [(''card_id'', JStr ''7'')])"
proof -
  have update_card: "declared_schema ''fizzy_update_card''
      = Some [(''card_id'', ''string''), (''title'', ''string?''), (''description'', ''string?'')]"
    by (simp add: declared_schema_def)
  have card_null: "map_of [(''card_id'', JNull), (''title'', JStr ''x'')] ''card_id'' = Some JNull"
    and title_null: "map_of [(''title'', JNull), (''card_id'', JStr ''7'')] ''title'' = Some JNull"
    by simp_all
  show ?thesis
    using update_card
      null_field_treated_as_absent [OF update_card card_null]
      null_field_treated_as_absent [OF update_card title_null]
    by (simp add: validateToolArgs_def validate_field_def Let_def endsWith_def)
qed

section \<open>The card number of a Location\<close>

lemma cards_at_Nil: "\<not> cards_at [] i"
  by (simp add: cards_at_def)

lemma drop_Suc_plus: "drop (Suc i + n) (c # cs) = drop (i + n) cs"
  by (simp only: add_Suc drop_Suc_Cons)

lemma cards_at_Suc: "cards_at (c # cs) (Suc i) = cards_at cs i"
  by (simp only: cards_at_def drop_Suc_plus drop_Suc_Cons)

lemma match_cards_Cons:
  "match_cards (c # cs) =
     (if cards_at (c # cs) 0 then Some (takeWhile is_digit (drop (0 + 7) (c # cs)))
      else match_cards cs)"
  by (simp add: cards_at_def)

lemma match_cards_None: "match_cards l = None \<longleftrightarrow> (\<forall>i. \<not> cards_at l i)"
proof (induction l)
  case Nil
  show ?case by (simp add: cards_at_Nil)
next
  case (Cons c cs)
  show ?case
  proof (cases "cards_at (c # cs) 0")
    case True
    then show ?thesis
      unfolding match_cards_Cons by auto
  next
    case False
    have "(\<forall>i. \<not> cards_at (c # cs) i) \<longleftrightarrow> (\<forall>i. \<not> cards_at cs i)"
    proof
      assume a: "\<forall>i. \<not> cards_at (c # cs) i"
      show "\<forall>i. \<not> cards_at cs i"
      proof
        fix i
        from a have "\<not> cards_at (c # cs) (Suc i)" by blast
        then show "\<not> cards_at cs i" by (simp add: cards_at_Suc)
      qed
    next
      assume a: "\<forall>i. \<not> cards_at cs i"
      show "\<forall>i. \<not> cards_at (c # cs) i"
      proof
        fix i
        show "\<not> cards_at (c # cs) i"
          using a False by (cases i) (simp_all add: cards_at_Suc)
      qed
    qed
    then show ?thesis
      using False Cons.IH unfolding match_cards_Cons by simp
  qed
qed

lemma match_cards_first:
  "cards_at l i \<Longrightarrow> (\<forall>j<i. \<not> cards_at l j) \<Longrightarrow>
   match_cards l = Some (takeWhile is_digit (drop (i + 7) l))"
proof (induction l arbitrary: i)
  case Nil
  then show ?case by (simp add: cards_at_Nil)
next
  case (Cons c cs)
  show ?case
  proof (cases i)
    case 0
    then show ?thesis
      using Cons.prems(1) unfolding match_cards_Cons by simp
  next
    case (Suc k)
    have no0: "\<not> cards_at (c # cs) 0"
      using Cons.prems(2) Suc by simp
    have at: "cards_at cs k"
      using Cons.prems(1) Suc by (simp add: cards_at_Suc)
    have before: "\<forall>j<k. \<not> cards_at cs j"
    proof (intro allI impI)
      fix j assume "j < k"
      then have "\<not> cards_at (c # cs) (Suc j)"
        using Cons.prems(2) Suc by simp
      then show "\<not> cards_at cs j" by (simp add: cards_at_Suc)
    qed
    have "match_cards cs = Some (takeWhile is_digit (drop (k + 7) cs))"
      by (rule Cons.IH [OF at before])
    then show ?thesis
      using no0 unfolding match_cards_Cons Suc drop_Suc_plus by simp
  qed
qed

lemma match_cards_Some:
  "match_cards l = Some d \<longleftrightarrow>
   (\<exists>i. cards_at l i \<and> (\<forall>j<i. \<not> cards_at l j) \<and> d = takeWhile is_digit (drop (i + 7) l))"
proof
  assume m: "match_cards l = Some d"
  then have "\<exists>i. cards_at l i"
    using match_cards_None [of l] by auto
  then have first: "cards_at l (LEAST i. cards_at l i)"
    and least: "\<forall>j<(LEAST i. cards_at l i). \<not> cards_at l j"
    by (auto intro: LeastI dest: not_less_Least)
  from match_cards_first [OF first least] m
  have "d = takeWhile is_digit (drop ((LEAST i. cards_at l i) + 7) l)" by simp
  with first least
  show "\<exists>i. cards_at l i \<and> (\<forall>j<i. \<not> cards_at l j) \<and> d = takeWhile is_digit (drop (i + 7) l)"
    by blast
next
  assume "\<exists>i. cards_at l i \<and> (\<forall>j<i. \<not> cards_at l j) \<and> d = takeWhile is_digit (drop (i + 7) l)"
  then show "match_cards l = Some d"
    using match_cards_first by blast
qed

section \<open>Response normalisation\<close>

lemma request_answered:
  "fetch e (build_request this path options) = Inr r \<Longrightarrow>
   request e this path options = ([build_request this path options], handle_response e r)"
  by (simp add: request_def)

text \<open>
  The object built for a created card names the card number \<open>card_number\<close>, so
  it is not the object with a \<open>cardNumber\<close> key; and a 201 response whose
  \<^verbatim>\<open>Location\<close> header is present but empty is answered as one without the header.
\<close>

theorem created_result_key_counterexample:
  "handle_response (answering (respond 201 (Some ''/1/cards/42.json'') []))
       (respond 201 (Some ''/1/cards/42.json'') [])
     \<noteq> Inr (JObj [(''success'', JBool True), (''message'', JStr ''Card created''),
                  (''cardNumber'', JStr ''42''), (''location'', JStr ''/1/cards/42.json'')])
   \<and> handle_response (answering (respond 201 (Some []) [])) (respond 201 (Some []) [])
     = Inr (JObj [(''success'', JBool True)])"
  by (simp add: handle_response_def respond_def ok_def)

text \<open>
  C1, as the code has it. For every response with status 201 and a non-empty
  \<^verbatim>\<open>Location\<close> value \<open>l\<close>, normalisation returns exactly the object
  \<^verbatim>\<open>{success: true, message: "Card created", card_number: d, location: l}\<close>, whatever
  the body and the decoder are. \<open>d\<close> is \<^verbatim>\<open>null\<close> when \<open>/cards/\<close> followed by a digit
  occurs nowhere in \<open>l\<close>, and otherwise the run of digits after the leftmost such
  occurrence.
\<close>

theorem created_with_location:
  assumes "status r = 201" and "headers_get r ''Location'' = Some l" and "l \<noteq> []"
  shows "handle_response e r
           = Inr (JObj [(''success'', JBool True),
                        (''message'', JStr ''Card created''),
                        (''card_number'', case match_cards l of Some d \<Rightarrow> JStr d | None \<Rightarrow> JNull),
                        (''location'', JStr l)])
       \<and> (\<forall>e' b. handle_response e' (r\<lparr>body_text := b\<rparr>) = handle_response e r)
       \<and> (match_cards l = None \<longleftrightarrow> (\<forall>i. \<not> cards_at l i))
       \<and> (\<forall>d. match_cards l = Some d \<longleftrightarrow>
            (\<exists>i. cards_at l i \<and> (\<forall>j<i. \<not> cards_at l j)
                 \<and> d = takeWhile is_digit (drop (i + 7) l)))"
proof -
  have result: "handle_response e' (r\<lparr>body_text := b\<rparr>)
      = Inr (JObj [(''success'', JBool True),
                   (''message'', JStr ''Card created''),
                   (''card_number'', case match_cards l of Some d \<Rightarrow> JStr d | None \<Rightarrow> JNull),
                   (''location'', JStr l)])" for e' b
    using assms by (simp add: handle_response_def ok_def)
  have here: "handle_response e r = handle_response e (r\<lparr>body_text := body_text r\<rparr>)"
    by simp
  show ?thesis
    using result [of e "body_text r"] result match_cards_None [of l] match_cards_Some [of l]
    unfolding here by simp
qed

theorem created_with_location_witness:
  "status (respond 201 (Some ''/1/cards/42.json'') []) = 201
   \<and> headers_get (respond 201 (Some ''/1/cards/42.json'') []) ''Location''
       = Some ''/1/cards/42.json''
   \<and> handle_response (answering (respond 201 (Some ''/1/cards/42.json'') []))
         (respond 201 (Some ''/1/cards/42.json'') [])
       = Inr (JObj [(''success'', JBool True), (''message'', JStr ''Card created''),
                    (''card_number'', JStr ''42''), (''location'', JStr ''/1/cards/42.json'')])"
proof -
  have created: "status (respond 201 (Some ''/1/cards/42.json'') []) = 201"
    and located: "headers_get (respond 201 (Some ''/1/cards/42.json'') []) ''Location''
      = Some ''/1/cards/42.json''"
    and nonempty: "''/1/cards/42.json'' \<noteq> []"
    by (simp_all add: respond_def)
  show ?thesis
    using created located
      created_with_location [OF created located nonempty,
        of "answering (respond 201 (Some ''/1/cards/42.json'') [])", THEN conjunct1]
    by (simp add: is_digit_def)
qed

text \<open>
  C5. For a response with a status from 200 to 299: a 201 without \<^verbatim>\<open>Location\<close>
  header gives \<^verbatim>\<open>{success: true}\<close>; any other status gives the empty object for an
  empty body, the decoded value for a body that decodes, and \<^verbatim>\<open>{html: t}\<close> around the
  raw body \<open>t\<close> when decoding fails.
\<close>

theorem success_normalization:
  assumes "ok r"
  shows "(status r = 201 \<and> headers_get r ''Location'' = None \<longrightarrow>
            handle_response e r = Inr (JObj [(''success'', JBool True)]))
       \<and> (status r \<noteq> 201 \<and> body_text r = [] \<longrightarrow> handle_response e r = Inr (JObj []))
       \<and> (\<forall>v. status r \<noteq> 201 \<and> body_text r \<noteq> [] \<and> JSON_parse e (body_text r) = Some v \<longrightarrow>
            handle_response e r = Inr v)
       \<and> (status r \<noteq> 201 \<and> body_text r \<noteq> [] \<and> JSON_parse e (body_text r) = None \<longrightarrow>
            handle_response e r = Inr (JObj [(''html'', JStr (body_text r))]))"
  using assms by (simp add: handle_response_def)

theorem success_normalization_witness:
  \<open>ok (respond 201 None []) \<and> ok (respond 200 None ''{"id":"7"}'')
   \<and> handle_response (answering (respond 201 None [])) (respond 201 None [])
       = Inr (JObj [(''success'', JBool True)])
   \<and> handle_response (answering (respond 200 None [])) (respond 200 None []) = Inr (JObj [])
   \<and> handle_response (answering (respond 200 None ''{"id":"7"}''))
         (respond 200 None ''{"id":"7"}'')
       = Inr (JObj [(''id'', JStr ''7'')])
   \<and> handle_response (answering (respond 200 None ''<div>not now</div>''))
         (respond 200 None ''<div>not now</div>'')
       = Inr (JObj [(''html'', JStr ''<div>not now</div>'')])\<close>
proof -
  have oks: "ok (respond 201 None [])" "ok (respond 200 None [])"
    \<open>ok (respond 200 None ''{"id":"7"}'')\<close> "ok (respond 200 None ''<div>not now</div>'')"
    by (simp_all add: ok_def respond_def)
  show ?thesis
    using oks
      success_normalization [OF oks(1), of "answering (respond 201 None [])"]
      success_normalization [OF oks(2), of "answering (respond 200 None [])"]
      success_normalization [OF oks(3), of \<open>answering (respond 200 None ''{"id":"7"}'')\<close>]
      success_normalization [OF oks(4), of "answering (respond 200 None ''<div>not now</div>'')"]
    by (simp add: respond_def answering_def simple_parse_def)
qed

text \<open>
  C6. For a response whose status is outside 200 to 299, normalisation fails with
  the error \<^verbatim>\<open>Fizzy API error (<status>): <body>\<close>: the message contains the decimal
  status and the raw body, the request that received the response fails with it,
  and no success value is produced.
\<close>

theorem remote_error:
  assumes "\<not> ok r"
  shows "\<exists>msg. msg = ''Fizzy API error ('' @ show_nat (status r) @ ''): '' @ body_text r
       \<and> handle_response e r = Inl (Error msg)
       \<and> sublist (show_nat (status r)) msg
       \<and> sublist (body_text r) msg
       \<and> (fetch e (build_request this path options) = Inr r \<longrightarrow>
            request e this path options = ([build_request this path options], Inl (Error msg)))"
proof -
  let ?msg = "''Fizzy API error ('' @ show_nat (status r) @ ''): '' @ body_text r"
  have failed: "handle_response e r = Inl (Error ?msg)"
    using assms by (simp add: handle_response_def)
  have s1: "sublist (show_nat (status r)) ?msg"
    by (rule sublist_appendI)
  have "sublist (body_text r) ((''Fizzy API error ('' @ show_nat (status r) @ ''): '') @ body_text r @ [])"
    by (rule sublist_appendI)
  then have s2: "sublist (body_text r) ?msg"
    by simp
  have "request e this path options = ([build_request this path options], Inl (Error ?msg))"
    if "fetch e (build_request this path options) = Inr r"
    using request_answered [OF that] failed by simp
  with failed s1 s2 show ?thesis
    by blast
qed

theorem remote_error_witness:
  "\<not> ok (respond 404 None ''not found'')
   \<and> handle_response (answering (respond 404 None ''not found'')) (respond 404 None ''not found'')
       = Inl (Error ''Fizzy API error (404): not found'')
   \<and> sublist ''404'' ''Fizzy API error (404): not found''
   \<and> sublist ''not found'' ''Fizzy API error (404): not found''
   \<and> request (answering (respond 404 None ''not found'')) local_client ''/cards/9'' no_options
       = ([\<lparr>url = ''http://localhost:3737/1/cards/9'',
            init = \<lparr>http_method = None, body = None\<rparr>,
            headers = [(''Accept'', ''application/json''),
                       (''Content-Type'', ''application/json''),
                       (''Authorization'', ''Bearer secret'')]\<rparr>],
          Inl (Error ''Fizzy API error (404): not found''))"
proof -
  have bad: "\<not> ok (respond 404 None ''not found'')"
    by (simp add: ok_def respond_def)
  have n: "show_nat 404 = ''404''"
    by (simp add: show_nat.simps)
  show ?thesis
    using bad remote_error [OF bad, of "answering (respond 404 None ''not found'')"
        local_client "''/cards/9''" no_options]
    by (simp add: respond_def answering_def n build_request_def local_client_def
        new_FizzyClient_def strip_slash_def no_options_def)
qed

section \<open>Identifiers and the requests of a call\<close>

lemma validateId_JStr:
  "validateId (JStr s) paramName =
     (if idPattern_test s then Inr () else Inl (Error (invalid_id_message paramName s)))"
  by (simp add: validateId_def invalid_id_message_def idPattern_test_def)

lemma valid_identifier_JStr: "valid_identifier (JStr s) = idPattern_test s"
  by (auto simp: valid_identifier_def idPattern_test_def)

lemma validateId_valid: "validateId v paramName = Inr () \<longleftrightarrow> valid_identifier v"
  by (auto simp: validateId_def valid_identifier_def)

lemma validateId_ok: "valid_identifier v \<Longrightarrow> validateId v paramName = Inr ()"
  by (simp add: validateId_valid)

lemma validateId_invalid:
  "\<not> valid_identifier (JStr s) \<Longrightarrow>
   validateId (JStr s) paramName = Inl (Error (invalid_id_message paramName s))"
  by (simp add: validateId_JStr valid_identifier_JStr)

lemma and_then_Inl: "and_then (reqs, Inl err) k = (reqs, Inl err)"
  by (simp add: and_then_def)

lemma and_then_Inr: "and_then (reqs, Inr x) k = (reqs @ fst (k x), snd (k x))"
  by (simp add: and_then_def split: prod.splits)

lemma fst_request: "fst (request e this path options) = [build_request this path options]"
  by (simp add: request_def)

lemma fst_and_then_lift:
  "fst (and_then m (\<lambda>x. lift (Inr (g x)))) = fst m"
  by (cases m) (simp add: and_then_def lift_def split: sum.splits)

lemma validate_move_args:
  assumes "truthy args" and "typeof args = ''object''"
    and "get_prop args ''card_id'' = JStr cardId" and "get_prop args ''column'' = JStr column"
  shows "validateToolArgs args [(''card_id'', ''string''), (''column'', ''string'')] name
         = Inr (JObj [(''card_id'', JStr cardId), (''column'', JStr column)])"
  using assms validateToolArgs_bag [OF assms(1,2), of "[(''card_id'', ''string''), (''column'', ''string'')]" name]
  by (simp add: spec_missing_def spec_wrongType_def spec_validated_def absent_def
      is_optional_def base_type_def endsWith_def)

lemma call_tool_first_invalid_id:
  assumes "declared_schema name = Some schema"
    and "validateToolArgs args schema name = Inr v"
    and "find (\<lambda>p. \<not> valid_identifier (get_prop v (fst p))) (id_params name v)
         = Some (field, paramName)"
    and "get_prop v field = JStr s"
  shows "call_tool e c name args = ([], Inl (Error (invalid_id_message paramName s)))"
  using assms
  by (auto simp: declared_schema_def id_params_def call_tool_def and_then_lift_Inr
      and_then_lift_Inl and_then_Inl getBoard_def getCard_def createCard_def updateCard_def
      moveCardToDone_def moveCardToNotNow_def moveCardToColumn_def listColumns_def
      listComments_def addComment_def addTag_def removeTag_def validateId_invalid
      validateId_ok
      split: if_splits)

lemma find_first:
  "\<forall>p \<in> set checked. \<not> P p \<Longrightarrow> P x \<Longrightarrow> find P (checked @ x # rest) = Some x"
  by (induction checked) simp_all

lemma invalid_id_message_names:
  "sublist paramName (invalid_id_message paramName s) \<and> sublist s (invalid_id_message paramName s)"
proof -
  have p1: "sublist paramName (''Invalid '' @ paramName @ '': must be a non-empty string'')"
    by (rule sublist_appendI)
  have p2: \<open>sublist paramName (''Invalid '' @ paramName @ ('': "'' @ s
      @ ''" contains invalid characters. Only alphanumeric characters are allowed.''))\<close>
    by (rule sublist_appendI)
  have s2: \<open>sublist s ((''Invalid '' @ paramName @ '': "'') @ s
      @ ''" contains invalid characters. Only alphanumeric characters are allowed.'')\<close>
    by (rule sublist_appendI)
  show ?thesis
    using p1 p2 s2 by (simp add: invalid_id_message_def)
qed

lemma typeof_string: "typeof x = ''string'' \<Longrightarrow> \<exists>s. x = JStr s"
  by (cases x) simp_all

lemma validated_bag:
  assumes "validateToolArgs args schema name = Inr v" and "distinct (map fst schema)"
  shows "v = JObj (spec_validated args schema)
       \<and> spec_missing args schema = [] \<and> spec_wrongType args schema = []"
proof -
  have bag: "truthy args \<and> typeof args = ''object''"
    using assms(1) by (auto simp: validateToolArgs_def split: if_splits)
  then show ?thesis
    using assms validateToolArgs_bag [of args schema name] by (auto split: if_splits)
qed

lemma map_of_spec_validated:
  assumes "distinct (map fst schema)" and "(f, t) \<in> set schema"
    and "\<not> absent (get_prop args f)" and "typeof (get_prop args f) = base_type t"
  shows "map_of (spec_validated args schema) f = Some (get_prop args f)"
proof -
  have "distinct (map fst (spec_validated args schema))"
    using assms(1) by (simp add: spec_validated_def comp_def distinct_map_filter)
  moreover have "(f, get_prop args f) \<in> set (spec_validated args schema)"
    using assms(2-4) by (force simp: spec_validated_def)
  ultimately show ?thesis
    by (rule map_of_is_SomeI)
qed

lemma spec_wrongType_member:
  "(f, t) \<in> set schema \<Longrightarrow> \<not> absent (get_prop args f) \<Longrightarrow>
   typeof (get_prop args f) \<noteq> base_type t \<Longrightarrow> spec_wrongType args schema \<noteq> []"
  by (induction schema) (auto simp: spec_wrongType_def)

lemma validated_required_string:
  assumes "validateToolArgs args schema name = Inr v" and "distinct (map fst schema)"
    and "(f, ''string'') \<in> set schema"
  shows "\<exists>s. get_prop v f = JStr s \<and> get_prop args f = JStr s"
proof -
  note bag = validated_bag [OF assms(1,2)]
  have req: "\<not> is_optional ''string''" and base: "base_type ''string'' = ''string''"
    by (simp_all add: is_optional_def base_type_def endsWith_def)
  have present: "\<not> absent (get_prop args f)"
    using spec_missing_member [OF assms(3) req, of args] bag by auto
  have typed: "typeof (get_prop args f) = base_type ''string''"
    using spec_wrongType_member [OF assms(3) present] bag by blast
  then obtain s where s: "get_prop args f = JStr s"
    using typeof_string base by auto
  have "map_of (spec_validated args schema) f = Some (get_prop args f)"
    by (rule map_of_spec_validated [OF assms(2,3) present typed])
  then have "get_prop v f = get_prop args f"
    using bag by simp
  with s show ?thesis by simp
qed

lemma identifier_is_string:
  assumes "declared_schema name = Some schema"
    and "validateToolArgs args schema name = Inr v"
    and "(field, paramName) \<in> set (id_params name v)"
  shows "\<exists>s. get_prop v field = JStr s \<and> get_prop args field = JStr s"
proof -
  have "(field, ''string'') \<in> set schema"
    using assms(1,3) by (auto simp: declared_schema_def id_params_def split: if_splits)
  then show ?thesis
    by (rule validated_required_string [OF assms(2) distinct_declared [OF assms(1)]])
qed

lemma id_params_args:
  assumes "declared_schema name = Some schema"
    and "validateToolArgs args schema name = Inr v"
  shows "id_params name v = id_params name args"
proof (cases "name = ''fizzy_move_card''")
  case True
  then have "(''column'', ''string'') \<in> set schema"
    using assms(1) by (auto simp: declared_schema_def)
  then have "get_prop v ''column'' = get_prop args ''column''"
    using validated_required_string [OF assms(2) distinct_declared [OF assms(1)], of "''column''"]
    by auto
  then show ?thesis
    by (simp add: id_params_def)
next
  case False
  then show ?thesis
    by (simp add: id_params_def)
qed

subsection \<open>One request for a call\<close>

text \<open>
  A call whose arguments validate and whose identifiers are all valid issues exactly
  one request, so \<open>id_params\<close> lists every identifier that a call checks; a name
  outside the table issues none.
\<close>

lemma fst_and_then_silent:
  assumes "\<And>x. fst (k x) = []"
  shows "fst (and_then m k) = fst m"
proof (cases m)
  case (Pair reqs r)
  show ?thesis
  proof (cases r)
    case (Inl err)
    with Pair show ?thesis by (simp add: and_then_Inl)
  next
    case (Inr x)
    with Pair show ?thesis by (simp add: and_then_Inr assms)
  qed
qed

lemma fst_lift: "fst (lift r) = []"
  by (simp add: lift_def)

lemma fst_listCards: "fst (listCards e c boardId) = [build_request c ''/cards'' no_options]"
  unfolding listCards_def
  by (subst fst_and_then_silent) (auto simp: fst_lift fst_request split: jsval.splits)

lemma call_tool_valid_ids:
  assumes "declared_schema name = Some schema"
    and "validateToolArgs args schema name = Inr v"
    and "\<forall>p \<in> set (id_params name v). valid_identifier (get_prop v (fst p))"
  shows "\<exists>req. fst (call_tool e c name args) = [req]"
  using assms
  by (auto simp: declared_schema_def id_params_def call_tool_def and_then_lift_Inr
      fst_and_then_lift fst_request fst_listCards
      getBoard_def createBoard_def getCard_def createCard_def updateCard_def
      moveCardToDone_def moveCardToNotNow_def moveCardToColumn_def listColumns_def
      listComments_def addComment_def addTag_def removeTag_def validateId_ok
      split: if_splits)

lemma list_boards_one_request:
  "fst (call_tool e c ''fizzy_list_boards'' args) = [build_request c ''/boards'' no_options]"
  by (simp add: call_tool_def listBoards_def fst_request)

lemma unknown_tool:
  "name \<noteq> ''fizzy_list_boards'' \<Longrightarrow> declared_schema name = None \<Longrightarrow>
   call_tool e c name args = ([], Inl (Error (''Unknown tool: '' @ name)))"
  by (auto simp: declared_schema_def call_tool_def lift_def split: if_splits)

subsection \<open>Moving a card\<close>

text \<open>
  A column that is neither \<^verbatim>\<open>done\<close> nor \<^verbatim>\<open>not_now\<close> and is no identifier issues no
  \<^verbatim>\<open>PATCH\<close>: \<open>moveCardToColumn\<close> checks the column with \<open>validateId\<close> first, and the
  call fails before any request.
\<close>

theorem move_card_dispatch_counterexample:
  \<open>call_tool (answering (respond 200 None [])) local_client ''fizzy_move_card''
     (JObj [(''card_id'', JStr ''7''), (''column'', JStr ''in progress'')])
   = ([], Inl (Error (''Invalid columnId: "in progress" contains invalid characters.''
                      @ '' Only alphanumeric characters are allowed.'')))\<close>
  by (simp add: call_tool_def validateToolArgs_def validate_field_def Let_def endsWith_def
      and_then_lift_Inr and_then_lift_Inl and_then_Inl moveCardToColumn_def validateId_JStr
      idPattern_test_def is_alnum_def is_digit_def invalid_id_message_def)

text \<open>
  C2, as the code has it. A move-card call whose arguments hold the strings
  \<open>card_id\<close> and \<open>column\<close> branches three ways on \<open>column\<close>, after checking that
  \<open>card_id\<close> is an identifier: \<^verbatim>\<open>done\<close> issues exactly one \<^verbatim>\<open>POST\<close> to
  \<^verbatim>\<open>/cards/{card_id}/closure\<close>, \<^verbatim>\<open>not_now\<close> exactly one \<^verbatim>\<open>POST\<close> to
  \<^verbatim>\<open>/cards/{card_id}/not_now\<close>, and any other column that is an identifier exactly one
  \<^verbatim>\<open>PATCH\<close> to \<^verbatim>\<open>/cards/{card_id}/column\<close> with the body \<^verbatim>\<open>{column_id: column}\<close>. A
  \<open>card_id\<close> or such a column that is no identifier issues no request.
\<close>

theorem move_card_dispatch:
  assumes "truthy args" and "typeof args = ''object''"
    and "get_prop args ''card_id'' = JStr cardId" and "get_prop args ''column'' = JStr column"
  shows "fst (call_tool e c ''fizzy_move_card'' args) =
     (if \<not> idPattern_test cardId then []
      else if column = ''done'' then
        [build_request c (''/cards/'' @ cardId @ ''/closure'')
           \<lparr>http_method = Some ''POST'', body = None\<rparr>]
      else if column = ''not_now'' then
        [build_request c (''/cards/'' @ cardId @ ''/not_now'')
           \<lparr>http_method = Some ''POST'', body = None\<rparr>]
      else if idPattern_test column then
        [build_request c (''/cards/'' @ cardId @ ''/column'')
           \<lparr>http_method = Some ''PATCH'',
            body = Some (JSON_stringify e (JObj [(''column_id'', JStr column)]))\<rparr>]
      else [])"
proof -
  have v: "validateToolArgs args [(''card_id'', ''string''), (''column'', ''string'')]
             ''fizzy_move_card''
           = Inr (JObj [(''card_id'', JStr cardId), (''column'', JStr column)])"
    by (rule validate_move_args [OF assms])
  show ?thesis
    by (simp add: call_tool_def v and_then_lift_Inr and_then_lift_Inl fst_and_then_lift
        moveCardToDone_def moveCardToNotNow_def moveCardToColumn_def validateId_JStr
        fst_request)
qed

theorem move_card_dispatch_witness:
  \<open>truthy (JObj [(''card_id'', JStr ''7''), (''column'', JStr ''3'')])
   \<and> fst (call_tool (answering (respond 200 None [])) local_client ''fizzy_move_card''
         (JObj [(''card_id'', JStr ''7''), (''column'', JStr ''3'')]))
       = [\<lparr>url = ''http://localhost:3737/1/cards/7/column'',
           init = \<lparr>http_method = Some ''PATCH'', body = Some ''{"column_id":"3"}''\<rparr>,
           headers = [(''Accept'', ''application/json''),
                      (''Content-Type'', ''application/json''),
                      (''Authorization'', ''Bearer secret'')]\<rparr>]
   \<and> fst (call_tool (answering (respond 200 None [])) local_client ''fizzy_move_card''
         (JObj [(''card_id'', JStr ''7''), (''column'', JStr ''done'')]))
       = [\<lparr>url = ''http://localhost:3737/1/cards/7/closure'',
           init = \<lparr>http_method = Some ''POST'', body = None\<rparr>,
           headers = [(''Accept'', ''application/json''),
                      (''Content-Type'', ''application/json''),
                      (''Authorization'', ''Bearer secret'')]\<rparr>]
   \<and> fst (call_tool (answering (respond 200 None [])) local_client ''fizzy_move_card''
         (JObj [(''card_id'', JStr ''7''), (''column'', JStr ''not_now'')]))
       = [\<lparr>url = ''http://localhost:3737/1/cards/7/not_now'',
           init = \<lparr>http_method = Some ''POST'', body = None\<rparr>,
           headers = [(''Accept'', ''application/json''),
                      (''Content-Type'', ''application/json''),
                      (''Authorization'', ''Bearer secret'')]\<rparr>]\<close>
  using
    move_card_dispatch [of "JObj [(''card_id'', JStr ''7''), (''column'', JStr ''3'')]"
      "''7''" "''3''" "answering (respond 200 None [])" local_client]
    move_card_dispatch [of "JObj [(''card_id'', JStr ''7''), (''column'', JStr ''done'')]"
      "''7''" "''done''" "answering (respond 200 None [])" local_client]
    move_card_dispatch [of "JObj [(''card_id'', JStr ''7''), (''column'', JStr ''not_now'')]"
      "''7''" "''not_now''" "answering (respond 200 None [])" local_client]
  by (simp add: idPattern_test_def is_alnum_def is_digit_def build_request_def
      local_client_def new_FizzyClient_def strip_slash_def answering_def)

subsection \<open>Invalid identifiers\<close>

text \<open>
  C4. Take a tool call whose arguments pass validation, and an identifier argument
  of the call (\<open>id_params\<close>) whose value is empty or has a character outside the
  ASCII letters and digits, the identifiers checked before it being valid. The call
  fails with the \<open>validateId\<close> error for that parameter, whose message contains the
  parameter's name and the value, and it has issued no request.
\<close>

theorem invalid_identifier_rejected:
  assumes "declared_schema name = Some schema"
    and "validateToolArgs args schema name = Inr v"
    and "id_params name args = checked @ (field, paramName) # rest"
    and "\<forall>p \<in> set checked. valid_identifier (get_prop args (fst p))"
    and "get_prop args field = JStr s"
    and "s = [] \<or> (\<exists>ch \<in> set s. \<not> is_alnum ch)"
  shows "call_tool e c name args = ([], Inl (Error (invalid_id_message paramName s)))
       \<and> sublist paramName (invalid_id_message paramName s)
       \<and> sublist s (invalid_id_message paramName s)"
proof -
  have params: "id_params name v = checked @ (field, paramName) # rest"
    using id_params_args [OF assms(1,2)] assms(3) by simp
  have same: "get_prop v (fst p) = get_prop args (fst p)" if "p \<in> set (id_params name v)" for p
    using identifier_is_string [OF assms(1,2), of "fst p" "snd p"] that by auto
  have here: "get_prop v field = JStr s"
    using same [of "(field, paramName)"] params assms(5) by simp
  have before: "\<forall>p \<in> set checked. \<not> \<not> valid_identifier (get_prop v (fst p))"
    using same params assms(4) by simp
  have bad: "\<not> valid_identifier (get_prop v (fst (field, paramName)))"
    using here assms(6) by (auto simp: valid_identifier_JStr idPattern_test_def list_all_iff)
  have "find (\<lambda>p. \<not> valid_identifier (get_prop v (fst p))) (id_params name v)
        = Some (field, paramName)"
    unfolding params by (rule find_first [OF before bad])
  then have "call_tool e c name args = ([], Inl (Error (invalid_id_message paramName s)))"
    by (rule call_tool_first_invalid_id [OF assms(1,2) _ here])
  then show ?thesis
    using invalid_id_message_names [of paramName s] by simp
qed

theorem invalid_identifier_rejected_witness:
  \<open>declared_schema ''fizzy_get_card'' = Some [(''card_id'', ''string'')]
   \<and> validateToolArgs (JObj [(''card_id'', JStr ''abc/123'')]) [(''card_id'', ''string'')]
         ''fizzy_get_card''
       = Inr (JObj [(''card_id'', JStr ''abc/123'')])
   \<and> id_params ''fizzy_get_card'' (JObj [(''card_id'', JStr ''abc/123'')])
       = [] @ (''card_id'', ''cardId'') # []
   \<and> call_tool (answering (respond 200 None [])) local_client ''fizzy_get_card''
         (JObj [(''card_id'', JStr ''abc/123'')])
       = ([], Inl (Error (''Invalid cardId: "abc/123" contains invalid characters.''
                          @ '' Only alphanumeric characters are allowed.'')))
   \<and> call_tool (answering (respond 200 None [])) local_client ''fizzy_move_card''
         (JObj [(''card_id'', JStr ''7''), (''column'', JStr ''id;drop'')])
       = ([], Inl (Error (''Invalid columnId: "id;drop" contains invalid characters.''
                          @ '' Only alphanumeric characters are allowed.'')))
   \<and> call_tool (answering (respond 200 None [])) local_client ''fizzy_list_columns''
         (JObj [(''board_id'', JStr [])])
       = ([], Inl (Error ''Invalid boardId: must be a non-empty string''))\<close>
proof -
  have get_card: "declared_schema ''fizzy_get_card'' = Some [(''card_id'', ''string'')]"
    and move_card: "declared_schema ''fizzy_move_card''
      = Some [(''card_id'', ''string''), (''column'', ''string'')]"
    and list_columns: "declared_schema ''fizzy_list_columns'' = Some [(''board_id'', ''string'')]"
    by (simp_all add: declared_schema_def)
  have v1: "validateToolArgs (JObj [(''card_id'', JStr ''abc/123'')]) [(''card_id'', ''string'')]
         ''fizzy_get_card''
       = Inr (JObj [(''card_id'', JStr ''abc/123'')])"
    and v2: "validateToolArgs (JObj [(''card_id'', JStr ''7''), (''column'', JStr ''id;drop'')])
         [(''card_id'', ''string''), (''column'', ''string'')] ''fizzy_move_card''
       = Inr (JObj [(''card_id'', JStr ''7''), (''column'', JStr ''id;drop'')])"
    and v3: "validateToolArgs (JObj [(''board_id'', JStr [])]) [(''board_id'', ''string'')]
         ''fizzy_list_columns''
       = Inr (JObj [(''board_id'', JStr [])])"
    by (simp_all add: validateToolArgs_def validate_field_def Let_def endsWith_def)
  have p1: "id_params ''fizzy_get_card'' (JObj [(''card_id'', JStr ''abc/123'')])
       = [] @ (''card_id'', ''cardId'') # []"
    and p2: "id_params ''fizzy_move_card''
         (JObj [(''card_id'', JStr ''7''), (''column'', JStr ''id;drop'')])
       = [(''card_id'', ''cardId'')] @ (''column'', ''columnId'') # []"
    and p3: "id_params ''fizzy_list_columns'' (JObj [(''board_id'', JStr [])])
       = [] @ (''board_id'', ''boardId'') # []"
    by (simp_all add: id_params_def)
  have seven: "\<forall>p \<in> set [(''card_id'', ''cardId'')].
      valid_identifier (get_prop (JObj [(''card_id'', JStr ''7''), (''column'', JStr ''id;drop'')])
        (fst p))"
    by (simp add: valid_identifier_def idPattern_test_def is_alnum_def is_digit_def)
  have slash: "''abc/123'' = [] \<or> (\<exists>ch \<in> set ''abc/123''. \<not> is_alnum ch)"
    and semicolon: "''id;drop'' = [] \<or> (\<exists>ch \<in> set ''id;drop''. \<not> is_alnum ch)"
    by (simp_all add: is_alnum_def is_digit_def)
  show ?thesis
    using get_card v1 p1
      invalid_identifier_rejected [OF get_card v1 p1 _ _ slash,
        of "answering (respond 200 None [])" local_client]
      invalid_identifier_rejected [OF move_card v2 p2 seven _ semicolon,
        of "answering (respond 200 None [])" local_client]
      invalid_identifier_rejected [OF list_columns v3 p3, of "[]"
        "answering (respond 200 None [])" local_client]
    by (simp add: invalid_id_message_def)
qed

subsection \<open>Tags\<close>

text \<open>
  C8. \<open>addTag\<close> and \<open>removeTag\<close> are the same function of the card identifier and the
  tag title: for a valid identifier both issue the one request \<^verbatim>\<open>POST\<close>
  \<^verbatim>\<open>/cards/{card_id}/taggings\<close> with the body \<^verbatim>\<open>{tag_title: t}\<close>, and for an invalid one
  none. The two tools issue the same requests on the same arguments; once the
  arguments validate, both run the same remote call and differ in the message of the
  result only.
\<close>

theorem tag_requests_identical:
  "addTag e c cardId tagTitle = removeTag e c cardId tagTitle
   \<and> fst (addTag e c cardId tagTitle)
       = (if valid_identifier cardId then
            [build_request c (''/cards/'' @ to_string cardId @ ''/taggings'')
               \<lparr>http_method = Some ''POST'',
                body = Some (JSON_stringify e (JObj [(''tag_title'', tagTitle)]))\<rparr>]
          else [])
   \<and> fst (call_tool e c ''fizzy_add_tag'' args) = fst (call_tool e c ''fizzy_remove_tag'' args)
   \<and> (\<forall>v. validateToolArgs args [(''card_id'', ''string''), (''tag'', ''string'')] ''fizzy_add_tag''
             = Inr v \<longrightarrow>
          call_tool e c ''fizzy_add_tag'' args
            = and_then (addTag e c (get_prop v ''card_id'') (get_prop v ''tag''))
                (\<lambda>_. lift (Inr (JObj [(''success'', JBool True),
                   (''message'', JStr (''Tag '' @ [CHR 0x27] @ to_string (get_prop v ''tag'')
                      @ [CHR 0x27] @ '' added to card''))])))
          \<and> call_tool e c ''fizzy_remove_tag'' args
            = and_then (addTag e c (get_prop v ''card_id'') (get_prop v ''tag''))
                (\<lambda>_. lift (Inr (JObj [(''success'', JBool True),
                   (''message'', JStr (''Tag '' @ [CHR 0x27] @ to_string (get_prop v ''tag'')
                      @ [CHR 0x27] @ '' removed from card''))]))))"
proof -
  have same_any: "addTag e c cid t = removeTag e c cid t" for cid t
    by (simp add: addTag_def removeTag_def)
  have same: "addTag e c cardId tagTitle = removeTag e c cardId tagTitle"
    by (rule same_any)
  have issued: "fst (addTag e c cardId tagTitle)
       = (if valid_identifier cardId then
            [build_request c (''/cards/'' @ to_string cardId @ ''/taggings'')
               \<lparr>http_method = Some ''POST'',
                body = Some (JSON_stringify e (JObj [(''tag_title'', tagTitle)]))\<rparr>]
          else [])"
  proof (cases "validateId cardId ''cardId''")
    case (Inl err)
    then have "\<not> valid_identifier cardId"
      using validateId_valid [of cardId "''cardId''"] by simp
    then show ?thesis
      using Inl by (simp add: addTag_def and_then_lift_Inl)
  next
    case (Inr u)
    then have "valid_identifier cardId"
      using validateId_valid [of cardId "''cardId''"] by simp
    then show ?thesis
      using Inr by (simp add: addTag_def and_then_lift_Inr fst_and_then_lift fst_request)
  qed
  have indep: "validateToolArgs args schema ''fizzy_remove_tag''
      = (case validateToolArgs args schema ''fizzy_add_tag'' of
           Inl err \<Rightarrow> validateToolArgs args schema ''fizzy_remove_tag''
         | Inr v \<Rightarrow> Inr v)" for schema
    by (simp add: validateToolArgs_def Let_def)
  have calls: "fst (call_tool e c ''fizzy_add_tag'' args)
      = fst (call_tool e c ''fizzy_remove_tag'' args)"
  proof (cases "validateToolArgs args [(''card_id'', ''string''), (''tag'', ''string'')]
      ''fizzy_add_tag''")
    case (Inl err)
    then obtain err' where "validateToolArgs args [(''card_id'', ''string''), (''tag'', ''string'')]
        ''fizzy_remove_tag'' = Inl err'"
      by (auto simp: validateToolArgs_def Let_def split: if_splits)
    with Inl show ?thesis
      by (simp add: call_tool_def and_then_lift_Inl)
  next
    case (Inr v)
    then have "validateToolArgs args [(''card_id'', ''string''), (''tag'', ''string'')]
        ''fizzy_remove_tag'' = Inr v"
      using indep [of "[(''card_id'', ''string''), (''tag'', ''string'')]"] by simp
    with Inr show ?thesis
      by (simp add: call_tool_def and_then_lift_Inr fst_and_then_lift same_any)
  qed
  have results: "call_tool e c ''fizzy_add_tag'' args
            = and_then (addTag e c (get_prop v ''card_id'') (get_prop v ''tag''))
                (\<lambda>_. lift (Inr (JObj [(''success'', JBool True),
                   (''message'', JStr (''Tag '' @ [CHR 0x27] @ to_string (get_prop v ''tag'')
                      @ [CHR 0x27] @ '' added to card''))])))
          \<and> call_tool e c ''fizzy_remove_tag'' args
            = and_then (addTag e c (get_prop v ''card_id'') (get_prop v ''tag''))
                (\<lambda>_. lift (Inr (JObj [(''success'', JBool True),
                   (''message'', JStr (''Tag '' @ [CHR 0x27] @ to_string (get_prop v ''tag'')
                      @ [CHR 0x27] @ '' removed from card''))])))"
    if v: "validateToolArgs args [(''card_id'', ''string''), (''tag'', ''string'')]
        ''fizzy_add_tag'' = Inr v" for v
  proof -
    have "validateToolArgs args [(''card_id'', ''string''), (''tag'', ''string'')]
        ''fizzy_remove_tag'' = Inr v"
      using indep [of "[(''card_id'', ''string''), (''tag'', ''string'')]"] v by simp
    with v show ?thesis
      by (simp add: call_tool_def and_then_lift_Inr same_any)
  qed
  show ?thesis
    using same issued calls results by blast
qed

theorem tag_requests_identical_witness:
  \<open>addTag (answering (respond 200 None [])) local_client (JStr ''15'') (JStr ''bug'')
     = removeTag (answering (respond 200 None [])) local_client (JStr ''15'') (JStr ''bug'')
   \<and> fst (addTag (answering (respond 200 None [])) local_client (JStr ''15'') (JStr ''bug''))
       = [\<lparr>url = ''http://localhost:3737/1/cards/15/taggings'',
           init = \<lparr>http_method = Some ''POST'', body = Some ''{"tag_title":"bug"}''\<rparr>,
           headers = [(''Accept'', ''application/json''),
                      (''Content-Type'', ''application/json''),
                      (''Authorization'', ''Bearer secret'')]\<rparr>]
   \<and> call_tool (answering (respond 200 None [])) local_client ''fizzy_add_tag''
         (JObj [(''card_id'', JStr ''15''), (''tag'', JStr ''bug'')])
       = ([\<lparr>url = ''http://localhost:3737/1/cards/15/taggings'',
            init = \<lparr>http_method = Some ''POST'', body = Some ''{"tag_title":"bug"}''\<rparr>,
            headers = [(''Accept'', ''application/json''),
                       (''Content-Type'', ''application/json''),
                       (''Authorization'', ''Bearer secret'')]\<rparr>],
          Inr (JObj [(''success'', JBool True), (''message'', JStr ''Tag 'bug' added to card'')]))
   \<and> call_tool (answering (respond 200 None [])) local_client ''fizzy_remove_tag''
         (JObj [(''card_id'', JStr ''15''), (''tag'', JStr ''bug'')])
       = ([\<lparr>url = ''http://localhost:3737/1/cards/15/taggings'',
            init = \<lparr>http_method = Some ''POST'', body = Some ''{"tag_title":"bug"}''\<rparr>,
            headers = [(''Accept'', ''application/json''),
                       (''Content-Type'', ''application/json''),
                       (''Authorization'', ''Bearer secret'')]\<rparr>],
          Inr (JObj [(''success'', JBool True),
                     (''message'', JStr ''Tag 'bug' removed from card'')]))\<close>
proof -
  have v: "validateToolArgs (JObj [(''card_id'', JStr ''15''), (''tag'', JStr ''bug'')])
        [(''card_id'', ''string''), (''tag'', ''string'')] ''fizzy_add_tag''
      = Inr (JObj [(''card_id'', JStr ''15''), (''tag'', JStr ''bug'')])"
    by (simp add: validateToolArgs_def validate_field_def Let_def endsWith_def)
  have fifteen: "valid_identifier (JStr ''15'')"
    by (simp add: valid_identifier_def idPattern_test_def is_alnum_def is_digit_def)
  have run: "addTag (answering (respond 200 None [])) local_client (JStr ''15'') (JStr ''bug'')
      = ([\<lparr>url = ''http://localhost:3737/1/cards/15/taggings'',
            init = \<lparr>http_method = Some ''POST'', body = Some ''{\"tag_title\":\"bug\"}''\<rparr>,
            headers = [(''Accept'', ''application/json''),
                       (''Content-Type'', ''application/json''),
                       (''Authorization'', ''Bearer secret'')]\<rparr>],
         Inr JUndefined)"
    by (simp add: addTag_def validateId_ok [OF fifteen] and_then_lift_Inr request_def
        build_request_def local_client_def new_FizzyClient_def strip_slash_def answering_def
        handle_response_def respond_def ok_def and_then_Inr lift_def)
  note T = tag_requests_identical [of "answering (respond 200 None [])" local_client
      "JStr ''15''" "JStr ''bug''" "JObj [(''card_id'', JStr ''15''), (''tag'', JStr ''bug'')]"]
  have same: "addTag (answering (respond 200 None [])) local_client (JStr ''15'') (JStr ''bug'')
      = removeTag (answering (respond 200 None [])) local_client (JStr ''15'') (JStr ''bug'')"
    by (rule T [THEN conjunct1])
  note calls = T [THEN conjunct2, THEN conjunct2, THEN conjunct2, rule_format, OF v]
  have added: "call_tool (answering (respond 200 None [])) local_client ''fizzy_add_tag''
         (JObj [(''card_id'', JStr ''15''), (''tag'', JStr ''bug'')])
       = (fst (addTag (answering (respond 200 None [])) local_client (JStr ''15'') (JStr ''bug'')),
          Inr (JObj [(''success'', JBool True), (''message'', JStr ''Tag 'bug' added to card'')]))"
    unfolding calls [THEN conjunct1] by (simp add: run and_then_Inr lift_def)
  have removed: "call_tool (answering (respond 200 None [])) local_client ''fizzy_remove_tag''
         (JObj [(''card_id'', JStr ''15''), (''tag'', JStr ''bug'')])
       = (fst (addTag (answering (respond 200 None [])) local_client (JStr ''15'') (JStr ''bug'')),
          Inr (JObj [(''success'', JBool True),
                     (''message'', JStr ''Tag 'bug' removed from card'')]))"
    unfolding calls [THEN conjunct2] by (simp add: run and_then_Inr lift_def)
  show ?thesis
    unfolding added removed same [symmetric] by (simp add: run)
qed

section \<open>Properties of the tool table\<close>

text \<open>The table has thirteen entries, not fourteen.\<close>

theorem tool_count_counterexample: "length TOOLS \<noteq> 14"
  by (simp add: TOOLS_def)

text \<open>
  C7, as the code has it. \<open>TOOLS\<close> declares exactly thirteen tools: three for
  boards, five for cards, one for columns, two for comments, two for tags. Their names
  are distinct; each has a description and an object schema whose properties all have
  type \<^verbatim>\<open>string\<close> and a description; the required names are properties; and the schema
  against which the handler validates a call is the table's, a property being marked
  optional when the table does not require it.
\<close>

theorem tool_table:
  "length TOOLS = 13
   \<and> map tool_name TOOLS =
       [''fizzy_list_boards'', ''fizzy_get_board'', ''fizzy_create_board'',
        ''fizzy_list_cards'', ''fizzy_get_card'', ''fizzy_create_card'', ''fizzy_update_card'',
        ''fizzy_move_card'', ''fizzy_list_columns'', ''fizzy_add_comment'',
        ''fizzy_list_comments'', ''fizzy_add_tag'', ''fizzy_remove_tag'']
   \<and> distinct (map tool_name TOOLS)
   \<and> (\<forall>t \<in> set TOOLS.
         tool_description t \<noteq> []
         \<and> schema_type (tool_inputSchema t) = ''object''
         \<and> (\<forall>p \<in> set (properties (tool_inputSchema t)).
               prop_type (snd p) = ''string'' \<and> prop_description (snd p) \<noteq> [])
         \<and> set (required (tool_inputSchema t)) \<subseteq> fst ` set (properties (tool_inputSchema t))
         \<and> declared_schema (tool_name t) =
             (if properties (tool_inputSchema t) = [] then None
              else Some (map (\<lambda>p. (fst p, prop_type (snd p)
                     @ (if fst p \<in> set (required (tool_inputSchema t)) then [] else ''?'')))
                   (properties (tool_inputSchema t)))))"
proof -
  have names: "map tool_name TOOLS =
       [''fizzy_list_boards'', ''fizzy_get_board'', ''fizzy_create_board'',
        ''fizzy_list_cards'', ''fizzy_get_card'', ''fizzy_create_card'', ''fizzy_update_card'',
        ''fizzy_move_card'', ''fizzy_list_columns'', ''fizzy_add_comment'',
        ''fizzy_list_comments'', ''fizzy_add_tag'', ''fizzy_remove_tag'']"
    by (simp add: TOOLS_def)
  have count: "length TOOLS = 13"
    using arg_cong [OF names, of length] by simp
  have unique: "distinct (map tool_name TOOLS)"
    unfolding names by simp
  have each: "\<forall>t \<in> set TOOLS.
         tool_description t \<noteq> []
         \<and> schema_type (tool_inputSchema t) = ''object''
         \<and> (\<forall>p \<in> set (properties (tool_inputSchema t)).
               prop_type (snd p) = ''string'' \<and> prop_description (snd p) \<noteq> [])
         \<and> set (required (tool_inputSchema t)) \<subseteq> fst ` set (properties (tool_inputSchema t))
         \<and> declared_schema (tool_name t) =
             (if properties (tool_inputSchema t) = [] then None
              else Some (map (\<lambda>p. (fst p, prop_type (snd p)
                     @ (if fst p \<in> set (required (tool_inputSchema t)) then [] else ''?'')))
                   (properties (tool_inputSchema t))))"
    by (simp add: TOOLS_def declared_schema_def)
  show ?thesis
    using names count unique each by blast
qed

theorem tool_table_witness:
  "TOOLS ! 7 \<in> set TOOLS
   \<and> tool_name (TOOLS ! 7) = ''fizzy_move_card''
   \<and> map fst (properties (tool_inputSchema (TOOLS ! 7))) = [''card_id'', ''column'']
   \<and> map (prop_type \<circ> snd) (properties (tool_inputSchema (TOOLS ! 7))) = [''string'', ''string'']
   \<and> required (tool_inputSchema (TOOLS ! 7)) = [''card_id'', ''column'']
   \<and> declared_schema ''fizzy_move_card'' = Some [(''card_id'', ''string''), (''column'', ''string'')]"
proof -
  have seventh: "TOOLS ! 7 \<in> set TOOLS"
    using tool_table by simp
  have shape: "tool_name (TOOLS ! 7) = ''fizzy_move_card''
      \<and> map fst (properties (tool_inputSchema (TOOLS ! 7))) = [''card_id'', ''column'']
      \<and> map (prop_type \<circ> snd) (properties (tool_inputSchema (TOOLS ! 7))) = [''string'', ''string'']
      \<and> required (tool_inputSchema (TOOLS ! 7)) = [''card_id'', ''column'']"
    by (simp add: TOOLS_def)
  have "declared_schema ''fizzy_move_card''
      = Some [(''card_id'', ''string''), (''column'', ''string'')]"
    using tool_table [THEN conjunct2, THEN conjunct2, THEN conjunct2, rule_format, OF seventh]
    by (simp add: TOOLS_def)
  then show ?thesis
    using seventh shape by simp
qed

section \<open>The base URL\<close>

lemma strip_slash_one:
  "strip_slash (s @ ''/'') = s"
  by (simp add: strip_slash_def)

lemma strip_slash_none:
  "s = [] \<or> last s \<noteq> CHR ''/'' \<Longrightarrow> strip_slash s = s"
  by (auto simp: strip_slash_def)

lemma strip_slash_normalises:
  assumes "\<not> endsWith s ''//''"
  shows "strip_slash s = [] \<or> last (strip_slash s) \<noteq> CHR ''/''"
proof (cases s rule: rev_cases)
  case Nil
  then show ?thesis by (simp add: strip_slash_def)
next
  case (snoc xs x)
  show ?thesis
  proof (cases "x = CHR ''/''")
    case False
    with snoc show ?thesis by (simp add: strip_slash_def)
  next
    case True
    show ?thesis
    proof (cases xs rule: rev_cases)
      case Nil
      with snoc True show ?thesis by (simp add: strip_slash_def)
    next
      case (snoc ys y)
      have "y \<noteq> CHR ''/''"
        using assms \<open>s = xs @ [x]\<close> True snoc by (auto simp: endsWith_def)
      moreover have "strip_slash s = ys @ [y]"
        using \<open>s = xs @ [x]\<close> True snoc by (simp add: strip_slash_def butlast_append)
      ultimately show ?thesis by simp
    qed
  qed
qed

lemma base_url_normalised:
  "\<not> endsWith s ''//'' \<Longrightarrow>
   baseUrl (new_FizzyClient s t a) = [] \<or> last (baseUrl (new_FizzyClient s t a)) \<noteq> CHR ''/''"
  using strip_slash_normalises [of s] by (simp add: new_FizzyClient_def)

lemma request_url:
  "url (build_request c path options) = baseUrl c @ ''/'' @ accountId c @ path"
  by (simp add: build_request_def)

text \<open>
  C9. The constructor removes one trailing slash. A base URL that ends in two slashes
  is stored with one, so the stored base URL has a trailing slash and the request URL
  built from it has a double slash before the account.
\<close>

theorem second_trailing_slash_kept:
  "baseUrl (new_FizzyClient ''http://localhost:3737//'' ''secret'' ''1'') = ''http://localhost:3737/''
   \<and> url (build_request (new_FizzyClient ''http://localhost:3737//'' ''secret'' ''1'')
         ''/boards'' no_options)
       = ''http://localhost:3737//1/boards''"
  by (simp add: new_FizzyClient_def strip_slash_def build_request_def)

end
